theory Spec2Isabelle
  imports Main "HOL-Library.Word" "HOL-Library.Signed_Division"
begin

section \<open>GKE control-plane reconciliation: data model\<close>

text \<open>
  The development follows \<^verbatim>\<open>cloud/services/container/clusters/reconcile.go\<close> and
  \<^verbatim>\<open>cloud/scope/managedmachinepool.go\<close>. A Go pointer is an \<open>option\<close> (\<open>None\<close> is
  \<^verbatim>\<open>nil\<close>), a Go slice that the code tests against \<^verbatim>\<open>nil\<close> is a \<open>list option\<close>, a
  run-time panic is the \<open>Inl\<close> branch of a sum.
\<close>

datatype fault =
    NilPointerDereference
  | IndexOutOfRange
  | LibraryPanic

subsection \<open>Errors\<close>

datatype codes =
    OK | Canceled | Unknown | InvalidArgument | DeadlineExceeded | NotFound
  | AlreadyExists | PermissionDenied | ResourceExhausted | FailedPrecondition
  | Aborted | OutOfRange | Unimplemented | Internal | Unavailable | DataLoss
  | Unauthenticated

text \<open>The status enum of the provider. It is open: \<open>Cluster_Status_unnamed n\<close> stands for a
  number \<open>n\<close> that has no name in the enum.\<close>

datatype Cluster_Status =
    Cluster_STATUS_UNSPECIFIED
  | Cluster_PROVISIONING
  | Cluster_RUNNING
  | Cluster_RECONCILING
  | Cluster_STOPPING
  | Cluster_ERROR
  | Cluster_DEGRADED
  | Cluster_Status_unnamed int

text \<open>
  The error values the two entry points handle: an \<^verbatim>\<open>*apierror.APIError\<close> with its gRPC
  code, any other error value, the two errors of the package, and \<^verbatim>\<open>fmt.Errorf\<close> with
  \<^verbatim>\<open>%w\<close> around another error.
\<close>

datatype error =
    APIError codes string
  | ErrorString string
  | ErrAutopilotClusterMachinePoolsNotAllowed
  | ErrUnexpectedClusterStatus Cluster_Status
  | Errorf string error

text \<open>\<^verbatim>\<open>errors.As(err, &e)\<close> for \<^verbatim>\<open>e *apierror.APIError\<close>, followed by
  \<^verbatim>\<open>e.GRPCStatus().Code()\<close>: the code of the first API error of the chain.\<close>

fun errors_As_APIError :: "error \<Rightarrow> codes option" where
  "errors_As_APIError (APIError c m) = Some c"
| "errors_As_APIError (Errorf m e) = errors_As_APIError e"
| "errors_As_APIError (ErrorString m) = None"
| "errors_As_APIError ErrAutopilotClusterMachinePoolsNotAllowed = None"
| "errors_As_APIError (ErrUnexpectedClusterStatus st) = None"

definition NewErrUnexpectedClusterStatus :: "Cluster_Status \<Rightarrow> error" where
  "NewErrUnexpectedClusterStatus st = ErrUnexpectedClusterStatus st"

subsection \<open>Desired state (API types of the custom resources)\<close>

datatype ReleaseChannel = Rapid | Regular | Stable | ReleaseChannel_other string

record MasterAuthorizedNetworksConfigCidrBlock =
  spec_DisplayName :: string
  spec_CidrBlock :: string

record MasterAuthorizedNetworksConfig =
  spec_CidrBlocks :: "MasterAuthorizedNetworksConfigCidrBlock list"
  spec_GcpPublicCidrsAccessEnabled :: "bool option"

datatype DatapathProvider =
    DatapathProviderUnspecified
  | DatapathProviderLegacyDatapath
  | DatapathProviderAdvancedDatapath
  | DatapathProvider_other string

record AddonsConfig =
  GcpFilestoreCsiDriverEnabled :: "bool option"
  NetworkPolicyEnabled :: "bool option"
  HorizontalPodAutoscalingEnabled :: "bool option"
  HTTPLoadBalancingEnabled :: "bool option"

subsection \<open>Provider types (\<^verbatim>\<open>containerpb\<close>)\<close>

datatype ReleaseChannel_Channel =
    ReleaseChannel_UNSPECIFIED
  | ReleaseChannel_RAPID
  | ReleaseChannel_REGULAR
  | ReleaseChannel_STABLE
  | ReleaseChannel_unnamed int

record pb_ReleaseChannel =
  Channel :: ReleaseChannel_Channel

record MasterAuthorizedNetworksConfig_CidrBlock =
  DisplayName :: string
  CidrBlock :: string

record pb_MasterAuthorizedNetworksConfig =
  Enabled :: bool
  CidrBlocks :: "MasterAuthorizedNetworksConfig_CidrBlock list option"
  GcpPublicCidrsAccessEnabled :: "bool option"

datatype pb_DatapathProvider =
    DatapathProvider_DATAPATH_PROVIDER_UNSPECIFIED
  | DatapathProvider_LEGACY_DATAPATH
  | DatapathProvider_ADVANCED_DATAPATH

record pb_AddonsConfig =
  GcpFilestoreCsiDriverConfig :: "bool option"
  NetworkPolicyConfig_Disabled :: "bool option"
  HorizontalPodAutoscaling_Disabled :: "bool option"
  HttpLoadBalancing_Disabled :: "bool option"

text \<open>\<^verbatim>\<open>len\<close> of a slice; the \<^verbatim>\<open>nil\<close> slice has length 0.\<close>

definition len :: "'a list option \<Rightarrow> nat" where
  "len xs = (case xs of None \<Rightarrow> 0 | Some ys \<Rightarrow> length ys)"

section \<open>The version check\<close>

text \<open>\<^verbatim>\<open>strings.HasPrefix(s, prefix)\<close> is
  \<^verbatim>\<open>len(s) >= len(prefix) && s[:len(prefix)] == prefix\<close>.\<close>

definition strings_HasPrefix :: "string \<Rightarrow> string \<Rightarrow> bool" where
  "strings_HasPrefix s pre \<longleftrightarrow> length pre \<le> length s \<and> take (length pre) s = pre"

definition hasDesiredVersion :: "string option \<Rightarrow> string \<Rightarrow> bool" where
  "hasDesiredVersion controlPlaneVersion clusterVersion =
     (case controlPlaneVersion of
        None \<Rightarrow> True
      | Some v \<Rightarrow>
          if strings_HasPrefix clusterVersion v then True
          else v = clusterVersion)"

section \<open>Converters of the diff step\<close>

definition convertToSdkReleaseChannel :: "ReleaseChannel option \<Rightarrow> ReleaseChannel_Channel" where
  "convertToSdkReleaseChannel channel =
     (case channel of
        None \<Rightarrow> ReleaseChannel_UNSPECIFIED
      | Some Rapid \<Rightarrow> ReleaseChannel_RAPID
      | Some Regular \<Rightarrow> ReleaseChannel_REGULAR
      | Some Stable \<Rightarrow> ReleaseChannel_STABLE
      | Some (ReleaseChannel_other s) \<Rightarrow> ReleaseChannel_UNSPECIFIED)"

definition convertToSdkDatapathProvider :: "DatapathProvider option \<Rightarrow> pb_DatapathProvider" where
  "convertToSdkDatapathProvider datapath =
     (case datapath of
        None \<Rightarrow> DatapathProvider_DATAPATH_PROVIDER_UNSPECIFIED
      | Some DatapathProviderUnspecified \<Rightarrow> DatapathProvider_DATAPATH_PROVIDER_UNSPECIFIED
      | Some DatapathProviderLegacyDatapath \<Rightarrow> DatapathProvider_LEGACY_DATAPATH
      | Some DatapathProviderAdvancedDatapath \<Rightarrow> DatapathProvider_ADVANCED_DATAPATH
      | Some (DatapathProvider_other s) \<Rightarrow> DatapathProvider_DATAPATH_PROVIDER_UNSPECIFIED)"

definition convertCidrBlock ::
  "MasterAuthorizedNetworksConfigCidrBlock \<Rightarrow> MasterAuthorizedNetworksConfig_CidrBlock" where
  "convertCidrBlock cidrBlock =
     \<lparr>DisplayName = spec_DisplayName cidrBlock, CidrBlock = spec_CidrBlock cidrBlock\<rparr>"

text \<open>The slice built with \<^verbatim>\<open>make\<close> and the literal \<^verbatim>\<open>[]T{}\<close> are both non-nil, also
  when empty; \<^verbatim>\<open>new(bool)\<close> points to \<^verbatim>\<open>false\<close>.\<close>

definition convertToSdkMasterAuthorizedNetworksConfig ::
  "MasterAuthorizedNetworksConfig option \<Rightarrow> pb_MasterAuthorizedNetworksConfig option" where
  "convertToSdkMasterAuthorizedNetworksConfig config =
     (case config of
        None \<Rightarrow>
          Some \<lparr>Enabled = False, CidrBlocks = Some [], GcpPublicCidrsAccessEnabled = Some False\<rparr>
      | Some c \<Rightarrow>
          Some \<lparr>Enabled = True,
                CidrBlocks = Some (map convertCidrBlock (spec_CidrBlocks c)),
                GcpPublicCidrsAccessEnabled = spec_GcpPublicCidrsAccessEnabled c\<rparr>)"

text \<open>
  \<^verbatim>\<open>cmp.Equal\<close> belongs to the go-cmp library, not to this repository. It is a parameter of
  the comparison: a function from the two allow-lists to its verdict, or to a panic (go-cmp
  panics on a struct with unexported fields when no option covers it).
\<close>

type_synonym cmp_Equal =
  "MasterAuthorizedNetworksConfig_CidrBlock list option \<Rightarrow>
   MasterAuthorizedNetworksConfig_CidrBlock list option \<Rightarrow> fault + bool"

definition compareMasterAuthorizedNetworksConfig ::
  "cmp_Equal \<Rightarrow> pb_MasterAuthorizedNetworksConfig option \<Rightarrow>
   pb_MasterAuthorizedNetworksConfig option \<Rightarrow> fault + bool" where
  "compareMasterAuthorizedNetworksConfig cmpEqual a b =
     (case (a, b) of
        (None, None) \<Rightarrow> Inr True
      | (None, Some b') \<Rightarrow> Inr False
      | (Some a', None) \<Rightarrow> Inr False
      | (Some a', Some b') \<Rightarrow>
          if Enabled a' \<noteq> Enabled b' then Inr False
          else if (GcpPublicCidrsAccessEnabled a' = None \<and> GcpPublicCidrsAccessEnabled b' \<noteq> None)
                \<or> (GcpPublicCidrsAccessEnabled a' \<noteq> None \<and> GcpPublicCidrsAccessEnabled b' = None)
          then Inr False
          else if (case (GcpPublicCidrsAccessEnabled a', GcpPublicCidrsAccessEnabled b') of
                     (Some x, Some y) \<Rightarrow> x \<noteq> y
                   | _ \<Rightarrow> False)
          then Inr False
          else if (CidrBlocks a' = None \<and> CidrBlocks b' \<noteq> None \<and> len (CidrBlocks b') = 0)
                \<or> (CidrBlocks b' = None \<and> CidrBlocks a' \<noteq> None \<and> len (CidrBlocks a') = 0)
          then Inr True
          else (case cmpEqual (CidrBlocks a') (CidrBlocks b') of
                  Inl f \<Rightarrow> Inl f
                | Inr eq \<Rightarrow> if \<not> eq then Inr False else Inr True))"

section \<open>Node pools (\<^verbatim>\<open>cloud/scope/managedmachinepool.go\<close>)\<close>

type_synonym int32 = "32 word"

text \<open>Go's \<^verbatim>\<open>/\<close> on \<^verbatim>\<open>int32\<close> truncates towards zero and wraps at the width. The only
  divisor in these files is the constant \<^verbatim>\<open>cloud.DefaultNumRegionsPerZone\<close>, and Go rejects a
  constant divisor that is zero, so the division cannot panic.\<close>

definition int32_quo :: "int32 \<Rightarrow> int32 \<Rightarrow> int32" where
  "int32_quo a b = word_of_int (sint a sdiv sint b)"

record NodePoolAutoScaling =
  MinCount :: "int32 option"
  MaxCount :: "int32 option"

record NodeManagement =
  spec_AutoUpgrade :: "bool option"
  spec_AutoRepair :: "bool option"

record Taint =
  spec_Effect :: string
  spec_Key :: string
  spec_Value :: string

record GCPManagedMachinePool =
  ObjectMeta_Name :: string
  NodePoolName :: string
  Scaling :: "NodePoolAutoScaling option"
  Management :: "NodeManagement option"
  MachineType :: string
  DiskSizeGb :: int32
  DiskType :: string
  KubernetesLabels :: "string \<rightharpoonup> string"
  KubernetesTaints :: "Taint list"
  AdditionalLabels :: "string \<rightharpoonup> string"
  ImageType :: string
  Preemptible :: "bool option"
  Spot :: "bool option"

record MachinePool =
  Replicas :: "int32 option"
  Template_Version :: "string option"

record NodePoolAutoscaling =
  Autoscaling_Enabled :: bool
  MinNodeCount :: int32
  MaxNodeCount :: int32

record pb_NodeManagement =
  AutoUpgrade :: bool
  AutoRepair :: bool

record NodeTaint =
  Key :: string
  Value :: string
  Effect :: string

record NodeConfig =
  Config_MachineType :: string
  Config_DiskSizeGb :: int32
  Config_DiskType :: string
  Config_Labels :: "string \<rightharpoonup> string"
  Config_Taints :: "NodeTaint list"
  Config_Metadata :: "string \<rightharpoonup> string"
  Config_ImageType :: string
  Config_Preemptible :: bool
  Config_Spot :: bool

record NodePool =
  NodePool_Name :: string
  InitialNodeCount :: int32
  Autoscaling :: "NodePoolAutoscaling option"
  NodePool_Management :: "pb_NodeManagement option"
  Config :: "NodeConfig option"
  Version :: string

subsection \<open>Observed cluster and the requests sent to the provider\<close>

record Cluster =
  Name :: string
  Network :: string
  Autopilot :: "bool option"
  ReleaseChannel :: "pb_ReleaseChannel option"
  WorkloadIdentityConfig :: "string option"
  NetworkConfig :: "pb_DatapathProvider option"
  AddonsConfig :: "pb_AddonsConfig option"
  ResourceLabels :: "string \<rightharpoonup> string"
  MasterAuthorizedNetworksConfig :: "pb_MasterAuthorizedNetworksConfig option"
  InitialClusterVersion :: string
  NodePools :: "NodePool list option"
  Status :: Cluster_Status
  CurrentMasterVersion :: string
  Endpoint :: string

text \<open>The zero value of the struct, which a Go composite literal starts from.\<close>

definition Cluster_zero :: Cluster where
  "Cluster_zero =
     \<lparr>Name = [], Network = [], Autopilot = None, ReleaseChannel = None,
      WorkloadIdentityConfig = None, NetworkConfig = None, AddonsConfig = None,
      ResourceLabels = Map.empty, MasterAuthorizedNetworksConfig = None,
      InitialClusterVersion = [], NodePools = None, Status = Cluster_STATUS_UNSPECIFIED,
      CurrentMasterVersion = [], Endpoint = []\<rparr>"

record CreateClusterRequest =
  Create_Cluster :: Cluster
  Parent :: string

record ClusterUpdate =
  DesiredReleaseChannel :: "pb_ReleaseChannel option"
  DesiredMasterVersion :: string
  DesiredMasterAuthorizedNetworksConfig :: "pb_MasterAuthorizedNetworksConfig option"

definition ClusterUpdate_zero :: ClusterUpdate where
  "ClusterUpdate_zero =
     \<lparr>DesiredReleaseChannel = None, DesiredMasterVersion = [],
      DesiredMasterAuthorizedNetworksConfig = None\<rparr>"

record UpdateClusterRequest =
  Update_Name :: string
  Update :: ClusterUpdate

subsection \<open>Conditions and the status record\<close>

datatype ConditionType =
    ReadyCondition
  | GKEControlPlaneReadyCondition
  | GKEControlPlaneCreatingCondition
  | GKEControlPlaneUpdatingCondition
  | GKEControlPlaneDeletingCondition

datatype Reason =
    GKEControlPlaneReconciliationFailedReason
  | GKEControlPlaneRequiresAtLeastOneNodePoolReason
  | GKEControlPlaneCreatingReason
  | GKEControlPlaneCreatedReason
  | GKEControlPlaneUpdatedReason
  | GKEControlPlaneDeletingReason
  | GKEControlPlaneDeletedReason
  | GKEControlPlaneErrorReason

datatype ConditionSeverity =
    ConditionSeverityError
  | ConditionSeverityWarning
  | ConditionSeverityInfo
  | ConditionSeverityNone

text \<open>
  \<^verbatim>\<open>conditions.MarkFalse\<close> takes a message format and builds the message with
  \<^verbatim>\<open>fmt.Sprintf\<close>. The two files pass no arguments after the format, and as format either a
  literal or the text of an error (\<^verbatim>\<open>err.Error()\<close>), which the model keeps symbolic.
  \<^verbatim>\<open>fmt.Sprintf\<close> with no arguments returns a format without \<^verbatim>\<open>%\<close> unchanged; what it makes
  of a format with a \<^verbatim>\<open>%\<close>, or of an error's text, is not computed: \<open>Formatted f\<close> stands
  for \<^verbatim>\<open>fmt.Sprintf(f)\<close>. It is the error's text only when that text has no \<^verbatim>\<open>%\<close>.
\<close>

datatype messageFormat = Literal string | Error_of error

datatype message = Text string | Formatted messageFormat

fun fmt_Sprintf :: "messageFormat \<Rightarrow> message" where
  "fmt_Sprintf (Literal s) = (if CHR ''%'' \<in> set s then Formatted (Literal s) else Text s)"
| "fmt_Sprintf (Error_of e) = Formatted (Error_of e)"

record Condition =
  Condition_Status :: bool
  Condition_Reason :: "Reason option"
  Severity :: ConditionSeverity
  Message :: message

text \<open>What a pass does that an observer can see, in order: the calls to the provider and to
  the two kubeconfig steps, and the condition writes.\<close>

datatype event =
    Call_GetCluster string
  | Call_CreateCluster CreateClusterRequest
  | Call_UpdateCluster UpdateClusterRequest
  | Call_DeleteCluster string
  | Call_reconcileKubeconfig
  | Call_reconcileAdditionalKubeconfigs
  | Mark ConditionType Condition

record status =
  Initialized :: bool
  Ready :: bool
  CurrentVersion :: string
  Status_Endpoint :: string
  Conditions :: "ConditionType \<rightharpoonup> Condition"
  events :: "event list"

record Result =
  Requeue :: bool
  RequeueAfter :: int

definition Result_zero :: Result where
  "Result_zero = \<lparr>Requeue = False, RequeueAfter = 0\<rparr>"

subsection \<open>The scope and the collaborators\<close>

text \<open>
  The desired state the two files read, with the results of the scope's methods whose bodies
  are in other files (\<^verbatim>\<open>ClusterName\<close>, \<^verbatim>\<open>ClusterFullName\<close>, \<^verbatim>\<open>ClusterLocation\<close>,
  \<^verbatim>\<open>Region\<close>, \<^verbatim>\<open>IsAutopilotCluster\<close>, \<^verbatim>\<open>GetAllNodePools\<close> with its three results).
  \<^verbatim>\<open>GetAllNodePools\<close> is called by \<^verbatim>\<open>Reconcile\<close> and again by \<^verbatim>\<open>createCluster\<close>; within one
  pass both calls get the same answer.
\<close>

record scope =
  Spec_EnableAutopilot :: bool
  Spec_ReleaseChannel :: "ReleaseChannel option"
  Spec_ControlPlaneVersion :: "string option"
  Spec_MasterAuthorizedNetworksConfig :: "MasterAuthorizedNetworksConfig option"
  Spec_EnableWorkloadIdentity :: bool
  Spec_Project :: string
  Spec_Network_Name :: "string option"
  Spec_Network_DatapathProvider :: "DatapathProvider option"
  Spec_AddonsConfig :: "AddonsConfig option"
  GCPManagedCluster_Labels :: "string \<rightharpoonup> string"
  ClusterName :: string
  ClusterFullName :: string
  ClusterLocation :: string
  Region :: string
  IsAutopilotCluster :: bool
  GetAllNodePools :: "GCPManagedMachinePool list \<times> MachinePool list \<times> error option"

text \<open>
  What the two files use from other packages: a constant, two helpers of the API package,
  the pre-flight check and the region test of \<^verbatim>\<open>shared\<close>, the retry interval, the
  comparison of go-cmp, the responses of the provider's four calls and the outcome of the two
  kubeconfig steps. They are parameters of the model.
\<close>

record collaborators =
  DefaultNumRegionsPerZone :: int32
  NormalizeMachineVersion :: "string option \<Rightarrow> string option"
  ConvertToSdkTaint :: "Taint list \<Rightarrow> NodeTaint list"
  ManagedMachinePoolsPreflightCheck ::
    "GCPManagedMachinePool list \<Rightarrow> MachinePool list \<Rightarrow> string \<Rightarrow> error option"
  IsRegional :: "string \<Rightarrow> bool"
  DefaultRetryTime :: int
  cmp_Equal :: cmp_Equal
  GetCluster :: "string \<Rightarrow> error + Cluster"
  CreateCluster :: "CreateClusterRequest \<Rightarrow> error option"
  UpdateCluster :: "UpdateClusterRequest \<Rightarrow> error option"
  DeleteCluster :: "string \<Rightarrow> error option"
  reconcileKubeconfig :: "Cluster \<Rightarrow> error option"
  reconcileAdditionalKubeconfigs :: "Cluster \<Rightarrow> error option"

section \<open>Converting node pools\<close>

definition convertToSdkNodePoolAutoscaling ::
  "NodePoolAutoScaling option \<Rightarrow> NodePoolAutoscaling option" where
  "convertToSdkNodePoolAutoscaling scaling =
     (case scaling of
        None \<Rightarrow> None
      | Some sc \<Rightarrow>
          Some \<lparr>Autoscaling_Enabled = True,
                MinNodeCount = (case MinCount sc of None \<Rightarrow> 0 | Some n \<Rightarrow> n),
                MaxNodeCount = (case MaxCount sc of None \<Rightarrow> 0 | Some n \<Rightarrow> n)\<rparr>)"

definition convertToSdkNodeManagement :: "NodeManagement option \<Rightarrow> pb_NodeManagement option" where
  "convertToSdkNodeManagement management =
     (case management of
        None \<Rightarrow> None
      | Some m \<Rightarrow>
          Some \<lparr>AutoUpgrade = (case spec_AutoUpgrade m of None \<Rightarrow> False | Some b \<Rightarrow> b),
                AutoRepair = (case spec_AutoRepair m of None \<Rightarrow> False | Some b \<Rightarrow> b)\<rparr>)"

text \<open>
  \<^verbatim>\<open>ConvertToSdkNodePool\<close> reads \<^verbatim>\<open>*machinePool.Spec.Replicas\<close> first, with no test against
  \<^verbatim>\<open>nil\<close>, and at the end the result of \<^verbatim>\<open>NormalizeMachineVersion\<close>, again with no test.
\<close>

definition ConvertToSdkNodePool ::
  "collaborators \<Rightarrow> GCPManagedMachinePool \<Rightarrow> MachinePool \<Rightarrow> bool \<Rightarrow> fault + NodePool" where
  "ConvertToSdkNodePool w nodePool machinePool regional =
     (case Replicas machinePool of
        None \<Rightarrow> Inl NilPointerDereference
      | Some r \<Rightarrow>
          let replicas = (if regional then int32_quo r (DefaultNumRegionsPerZone w) else r);
              nodePoolName =
                (if length (NodePoolName nodePool) = 0 then ObjectMeta_Name nodePool
                 else NodePoolName nodePool);
              sdkNodePool =
                \<lparr>NodePool_Name = nodePoolName,
                 InitialNodeCount = replicas,
                 Autoscaling = convertToSdkNodePoolAutoscaling (Scaling nodePool),
                 NodePool_Management = convertToSdkNodeManagement (Management nodePool),
                 Config = Some
                   \<lparr>Config_MachineType = MachineType nodePool,
                    Config_DiskSizeGb = DiskSizeGb nodePool,
                    Config_DiskType = DiskType nodePool,
                    Config_Labels = KubernetesLabels nodePool,
                    Config_Taints = ConvertToSdkTaint w (KubernetesTaints nodePool),
                    Config_Metadata = AdditionalLabels nodePool,
                    Config_ImageType = ImageType nodePool,
                    Config_Preemptible = (Preemptible nodePool \<noteq> None \<and> Preemptible nodePool = Some True),
                    Config_Spot = (Spot nodePool \<noteq> None \<and> Spot nodePool = Some True)\<rparr>,
                 Version = []\<rparr>
          in (case Template_Version machinePool of
                None \<Rightarrow> Inr sdkNodePool
              | Some v \<Rightarrow>
                  (case NormalizeMachineVersion w (Some v) of
                     None \<Rightarrow> Inl NilPointerDereference
                   | Some n \<Rightarrow> Inr (sdkNodePool\<lparr>Version := n\<rparr>))))"

text \<open>The loop \<^verbatim>\<open>for i := range nodePools\<close>, from index \<open>i\<close> with the result so far;
  \<^verbatim>\<open>machinePools[i]\<close> panics when \<open>i\<close> is out of range.\<close>

function ConvertToSdkNodePools_from ::
  "collaborators \<Rightarrow> GCPManagedMachinePool list \<Rightarrow> MachinePool list \<Rightarrow> bool \<Rightarrow> nat \<Rightarrow>
   NodePool list \<Rightarrow> fault + NodePool list" where
  "ConvertToSdkNodePools_from w nodePools machinePools regional i res =
     (if i < length nodePools then
        (if i < length machinePools then
           (case ConvertToSdkNodePool w (nodePools ! i) (machinePools ! i) regional of
              Inl f \<Rightarrow> Inl f
            | Inr p \<Rightarrow>
                ConvertToSdkNodePools_from w nodePools machinePools regional (Suc i) (res @ [p]))
         else Inl IndexOutOfRange)
      else Inr res)"
  by pat_completeness auto
termination
  by (relation "measure (\<lambda>(w, nodePools, machinePools, regional, i, res). length nodePools - i)")
     auto

declare ConvertToSdkNodePools_from.simps [simp del]

definition ConvertToSdkNodePools ::
  "collaborators \<Rightarrow> GCPManagedMachinePool list \<Rightarrow> MachinePool list \<Rightarrow> bool \<Rightarrow>
   fault + NodePool list" where
  "ConvertToSdkNodePools w nodePools machinePools regional =
     ConvertToSdkNodePools_from w nodePools machinePools regional 0 []"

section \<open>Condition writes\<close>

text \<open>\<^verbatim>\<open>conditions.MarkTrue\<close> and \<^verbatim>\<open>conditions.MarkFalse\<close> of Cluster API replace the
  condition of the given type; the write is also recorded in the event list. A true condition
  has no reason and an empty message; a false one has the message \<^verbatim>\<open>fmt.Sprintf\<close> makes of
  the format it is given.\<close>

definition set_condition :: "ConditionType \<Rightarrow> Condition \<Rightarrow> status \<Rightarrow> status" where
  "set_condition t c s = s\<lparr>Conditions := (Conditions s)(t \<mapsto> c), events := events s @ [Mark t c]\<rparr>"

definition TrueCondition :: Condition where
  "TrueCondition =
     \<lparr>Condition_Status = True, Condition_Reason = None, Severity = ConditionSeverityNone,
      Message = Text []\<rparr>"

definition FalseCondition ::
  "Reason \<Rightarrow> ConditionSeverity \<Rightarrow> messageFormat \<Rightarrow> Condition" where
  "FalseCondition reason severity messageFormat =
     \<lparr>Condition_Status = False, Condition_Reason = Some reason, Severity = severity,
      Message = fmt_Sprintf messageFormat\<rparr>"

definition MarkTrue :: "ConditionType \<Rightarrow> status \<Rightarrow> status" where
  "MarkTrue t s = set_condition t TrueCondition s"

definition MarkFalse ::
  "ConditionType \<Rightarrow> Reason \<Rightarrow> ConditionSeverity \<Rightarrow> messageFormat \<Rightarrow> status \<Rightarrow> status"
  where
  "MarkFalse t reason severity messageFormat s =
     set_condition t (FalseCondition reason severity messageFormat) s"

definition call :: "event \<Rightarrow> status \<Rightarrow> status" where
  "call e s = s\<lparr>events := events s @ [e]\<rparr>"

section \<open>The service (\<^verbatim>\<open>reconcile.go\<close>)\<close>

subsection \<open>Calls to the provider\<close>

definition describeCluster ::
  "collaborators \<Rightarrow> scope \<Rightarrow> status \<Rightarrow> (error + Cluster option) \<times> status" where
  "describeCluster w sc s =
     (let s1 = call (Call_GetCluster (ClusterFullName sc)) s
      in case GetCluster w (ClusterFullName sc) of
           Inl err \<Rightarrow>
             (case errors_As_APIError err of
                Some c \<Rightarrow> if c = NotFound then (Inr None, s1) else (Inl err, s1)
              | None \<Rightarrow> (Inl err, s1))
         | Inr cluster \<Rightarrow> (Inr (Some cluster), s1))"

definition createAddonsConfig :: "scope \<Rightarrow> pb_AddonsConfig option" where
  "createAddonsConfig sc =
     (case Spec_AddonsConfig sc of
        None \<Rightarrow> None
      | Some a \<Rightarrow>
          Some \<lparr>GcpFilestoreCsiDriverConfig = GcpFilestoreCsiDriverEnabled a,
                NetworkPolicyConfig_Disabled = map_option Not (NetworkPolicyEnabled a),
                HorizontalPodAutoscaling_Disabled =
                  map_option Not (HorizontalPodAutoscalingEnabled a),
                HttpLoadBalancing_Disabled = map_option Not (HTTPLoadBalancingEnabled a)\<rparr>)"

definition createNetworkConfig :: "scope \<Rightarrow> pb_DatapathProvider option" where
  "createNetworkConfig sc =
     (if Spec_Network_DatapathProvider sc = None then None
      else Some (convertToSdkDatapathProvider (Spec_Network_DatapathProvider sc)))"

definition createWorkloadIdentityConfig :: "scope \<Rightarrow> string option" where
  "createWorkloadIdentityConfig sc =
     (if IsAutopilotCluster sc \<or> \<not> Spec_EnableWorkloadIdentity sc then None
      else Some (Spec_Project sc @ ''.svc.id.goog''))"

definition createCluster ::
  "collaborators \<Rightarrow> scope \<Rightarrow> status \<Rightarrow> (fault + error option) \<times> status" where
  "createCluster w sc s =
     (case GetAllNodePools sc of (nodePools, machinePools, _) \<Rightarrow>
        (case ManagedMachinePoolsPreflightCheck w nodePools machinePools (Region sc) of
           Some err \<Rightarrow>
             (Inr (Some (Errorf ''preflight checks on machine pools before cluster create'' err)), s)
         | None \<Rightarrow>
             let isRegional = IsRegional w (Region sc)
             in (case Spec_Network_Name sc of
                   None \<Rightarrow> (Inl NilPointerDereference, s)
                 | Some network \<Rightarrow>
                     let cluster = Cluster_zero
                           \<lparr>Name := ClusterName sc,
                            Network := network,
                            Autopilot := Some (Spec_EnableAutopilot sc),
                            ReleaseChannel :=
                              Some \<lparr>Channel = convertToSdkReleaseChannel (Spec_ReleaseChannel sc)\<rparr>,
                            WorkloadIdentityConfig := createWorkloadIdentityConfig sc,
                            NetworkConfig := createNetworkConfig sc,
                            AddonsConfig := createAddonsConfig sc,
                            ResourceLabels := GCPManagedCluster_Labels sc,
                            MasterAuthorizedNetworksConfig :=
                              convertToSdkMasterAuthorizedNetworksConfig
                                (Spec_MasterAuthorizedNetworksConfig sc)\<rparr>;
                         cluster1 =
                           (case Spec_ControlPlaneVersion sc of
                              None \<Rightarrow> cluster
                            | Some v \<Rightarrow> cluster\<lparr>InitialClusterVersion := v\<rparr>)
                     in (case (if \<not> IsAutopilotCluster sc
                               then (case ConvertToSdkNodePools w nodePools machinePools isRegional of
                                       Inl f \<Rightarrow> Inl f
                                     | Inr pools \<Rightarrow> Inr (cluster1\<lparr>NodePools := Some pools\<rparr>))
                               else Inr cluster1) of
                           Inl f \<Rightarrow> (Inl f, s)
                         | Inr cluster2 \<Rightarrow>
                             let createClusterRequest =
                                   \<lparr>Create_Cluster = cluster2, Parent = ClusterLocation sc\<rparr>;
                                 s1 = call (Call_CreateCluster createClusterRequest) s
                             in (Inr (CreateCluster w createClusterRequest), s1)))))"

definition updateCluster ::
  "collaborators \<Rightarrow> UpdateClusterRequest \<Rightarrow> status \<Rightarrow> error option \<times> status" where
  "updateCluster w updateClusterRequest s =
     (UpdateCluster w updateClusterRequest, call (Call_UpdateCluster updateClusterRequest) s)"

definition deleteCluster :: "collaborators \<Rightarrow> scope \<Rightarrow> status \<Rightarrow> error option \<times> status" where
  "deleteCluster w sc s =
     (DeleteCluster w (ClusterFullName sc), call (Call_DeleteCluster (ClusterFullName sc)) s)"

subsection \<open>The diff step\<close>

text \<open>
  \<^verbatim>\<open>checkDiffAndPrepareUpdate\<close> runs three blocks over the pair of the flag \<^verbatim>\<open>needUpdate\<close> and
  the update being built. Each block is a definition here: release channel (lines 438-446),
  master version (lines 448-452), authorized networks (lines 454-461). The first reads
  \<^verbatim>\<open>existingCluster.ReleaseChannel.Channel\<close> and the second
  \<^verbatim>\<open>*s.scope.GCPManagedControlPlane.Spec.ControlPlaneVersion\<close>, both through a pointer that
  is not tested.
\<close>

definition diffReleaseChannel ::
  "scope \<Rightarrow> Cluster \<Rightarrow> bool \<times> ClusterUpdate \<Rightarrow> fault + bool \<times> ClusterUpdate" where
  "diffReleaseChannel sc existingCluster acc =
     (case acc of (needUpdate, clusterUpdate) \<Rightarrow>
        let desiredReleaseChannel = convertToSdkReleaseChannel (Spec_ReleaseChannel sc)
        in (case ReleaseChannel existingCluster of
              None \<Rightarrow> Inl NilPointerDereference
            | Some rc \<Rightarrow>
                if desiredReleaseChannel \<noteq> Channel rc
                then Inr (True, clusterUpdate
                            \<lparr>DesiredReleaseChannel := Some \<lparr>Channel = desiredReleaseChannel\<rparr>\<rparr>)
                else Inr (needUpdate, clusterUpdate)))"

definition diffMasterVersion ::
  "scope \<Rightarrow> Cluster \<Rightarrow> bool \<times> ClusterUpdate \<Rightarrow> fault + bool \<times> ClusterUpdate" where
  "diffMasterVersion sc existingCluster acc =
     (case acc of (needUpdate, clusterUpdate) \<Rightarrow>
        if hasDesiredVersion (Spec_ControlPlaneVersion sc) (CurrentMasterVersion existingCluster)
        then (case Spec_ControlPlaneVersion sc of
                None \<Rightarrow> Inl NilPointerDereference
              | Some v \<Rightarrow> Inr (True, clusterUpdate\<lparr>DesiredMasterVersion := v\<rparr>))
        else Inr (needUpdate, clusterUpdate))"

definition diffMasterAuthorizedNetworksConfig ::
  "collaborators \<Rightarrow> scope \<Rightarrow> Cluster \<Rightarrow> bool \<times> ClusterUpdate \<Rightarrow> fault + bool \<times> ClusterUpdate"
  where
  "diffMasterAuthorizedNetworksConfig w sc existingCluster acc =
     (case acc of (needUpdate, clusterUpdate) \<Rightarrow>
        let desiredMasterAuthorizedNetworksConfig =
              convertToSdkMasterAuthorizedNetworksConfig (Spec_MasterAuthorizedNetworksConfig sc)
        in (case compareMasterAuthorizedNetworksConfig (cmp_Equal w)
                   desiredMasterAuthorizedNetworksConfig
                   (MasterAuthorizedNetworksConfig existingCluster) of
              Inl f \<Rightarrow> Inl f
            | Inr equal \<Rightarrow>
                if \<not> equal
                then Inr (True, clusterUpdate
                            \<lparr>DesiredMasterAuthorizedNetworksConfig :=
                               desiredMasterAuthorizedNetworksConfig\<rparr>)
                else Inr (needUpdate, clusterUpdate)))"

definition checkDiffAndPrepareUpdate ::
  "collaborators \<Rightarrow> scope \<Rightarrow> Cluster \<Rightarrow> fault + bool \<times> UpdateClusterRequest" where
  "checkDiffAndPrepareUpdate w sc existingCluster =
     (case diffReleaseChannel sc existingCluster (False, ClusterUpdate_zero) of
        Inl f \<Rightarrow> Inl f
      | Inr acc1 \<Rightarrow>
          (case diffMasterVersion sc existingCluster acc1 of
             Inl f \<Rightarrow> Inl f
           | Inr acc2 \<Rightarrow>
               (case diffMasterAuthorizedNetworksConfig w sc existingCluster acc2 of
                  Inl f \<Rightarrow> Inl f
                | Inr (needUpdate, clusterUpdate) \<Rightarrow>
                    Inr (needUpdate,
                         \<lparr>Update_Name = ClusterFullName sc, Update = clusterUpdate\<rparr>))))"

subsection \<open>Reconcile\<close>

text \<open>
  A pass returns a \<^verbatim>\<open>ctrl.Result\<close> and an error (\<open>None\<close> is \<^verbatim>\<open>nil\<close>), or panics, and
  leaves the status record as it was written up to there. \<^verbatim>\<open>Reconcile\<close> is one function
  in the source; its branches are definitions here: the cluster was not found (lines 55-97,
  the create call and what follows it being lines 85-96), the cluster was found (lines
  99-141), the cluster is running (lines 143-179). Log output is not part of the model.
\<close>

type_synonym outcome = "Result \<times> error option"

definition Reconcile_create ::
  "collaborators \<Rightarrow> scope \<Rightarrow> status \<Rightarrow> (fault + outcome) \<times> status" where
  "Reconcile_create w sc s =
     (case createCluster w sc s of
        (Inl f, s1) \<Rightarrow> (Inl f, s1)
      | (Inr (Some err), s1) \<Rightarrow>
          let s2 = MarkFalse ReadyCondition GKEControlPlaneReconciliationFailedReason
                     ConditionSeverityError (Error_of err) s1;
              s3 = MarkFalse GKEControlPlaneReadyCondition GKEControlPlaneReconciliationFailedReason
                     ConditionSeverityError (Error_of err) s2;
              s4 = MarkFalse GKEControlPlaneCreatingCondition
                     GKEControlPlaneReconciliationFailedReason
                     ConditionSeverityError (Error_of err) s3
          in (Inr (Result_zero, Some err), s4)
      | (Inr None, s1) \<Rightarrow>
          let s2 = MarkFalse ReadyCondition GKEControlPlaneCreatingReason
                     ConditionSeverityInfo (Literal []) s1;
              s3 = MarkFalse GKEControlPlaneReadyCondition GKEControlPlaneCreatingReason
                     ConditionSeverityInfo (Literal []) s2;
              s4 = MarkTrue GKEControlPlaneCreatingCondition s3
          in (Inr (Result_zero\<lparr>RequeueAfter := DefaultRetryTime w\<rparr>, None), s4))"

definition Reconcile_notFound ::
  "collaborators \<Rightarrow> scope \<Rightarrow> status \<Rightarrow> (fault + outcome) \<times> status" where
  "Reconcile_notFound w sc s0 =
     (let s = s0\<lparr>Initialized := False, Ready := False\<rparr>
      in case GetAllNodePools sc of (nodePools, _, err) \<Rightarrow>
           (case err of
              Some e \<Rightarrow>
                let s1 = MarkFalse ReadyCondition GKEControlPlaneReconciliationFailedReason
                           ConditionSeverityError (Error_of e) s;
                    s2 = MarkFalse GKEControlPlaneReadyCondition
                           GKEControlPlaneReconciliationFailedReason
                           ConditionSeverityError (Error_of e) s1;
                    s3 = MarkFalse GKEControlPlaneCreatingCondition
                           GKEControlPlaneReconciliationFailedReason
                           ConditionSeverityError (Error_of e) s2
                in (Inr (Result_zero, Some e), s3)
            | None \<Rightarrow>
                if IsAutopilotCluster sc then
                  (if length nodePools > 0 then
                     let s1 = MarkFalse ReadyCondition
                                GKEControlPlaneRequiresAtLeastOneNodePoolReason
                                ConditionSeverityInfo (Literal []) s;
                         s2 = MarkFalse GKEControlPlaneReadyCondition
                                GKEControlPlaneRequiresAtLeastOneNodePoolReason
                                ConditionSeverityInfo (Literal []) s1;
                         s3 = MarkFalse GKEControlPlaneCreatingCondition
                                GKEControlPlaneRequiresAtLeastOneNodePoolReason
                                ConditionSeverityInfo (Literal []) s2
                     in (Inr (Result_zero, Some ErrAutopilotClusterMachinePoolsNotAllowed), s3)
                   else Reconcile_create w sc s)
                else
                  (if length nodePools = 0 then
                     let s1 = MarkFalse ReadyCondition
                                GKEControlPlaneRequiresAtLeastOneNodePoolReason
                                ConditionSeverityInfo (Literal []) s;
                         s2 = MarkFalse GKEControlPlaneReadyCondition
                                GKEControlPlaneRequiresAtLeastOneNodePoolReason
                                ConditionSeverityInfo (Literal []) s1;
                         s3 = MarkFalse GKEControlPlaneCreatingCondition
                                GKEControlPlaneRequiresAtLeastOneNodePoolReason
                                ConditionSeverityInfo (Literal []) s2
                     in (Inr (Result_zero\<lparr>RequeueAfter := DefaultRetryTime w\<rparr>, None), s3)
                   else Reconcile_create w sc s)))"

definition Reconcile_running ::
  "collaborators \<Rightarrow> scope \<Rightarrow> Cluster \<Rightarrow> status \<Rightarrow> (fault + outcome) \<times> status" where
  "Reconcile_running w sc cluster s =
     (case checkDiffAndPrepareUpdate w sc cluster of
        Inl f \<Rightarrow> (Inl f, s)
      | Inr (needUpdate, updateClusterRequest) \<Rightarrow>
          if needUpdate then
            (case updateCluster w updateClusterRequest s of
               (Some err, s1) \<Rightarrow> (Inr (Result_zero, Some err), s1)
             | (None, s1) \<Rightarrow>
                 let s2 = MarkTrue GKEControlPlaneUpdatingCondition s1;
                     s3 = s2\<lparr>Initialized := True, Ready := True\<rparr>
                 in (Inr (Result_zero, None), s3))
          else
            let s1 = MarkFalse GKEControlPlaneUpdatingCondition GKEControlPlaneUpdatedReason
                       ConditionSeverityInfo (Literal []) s;
                s2 = call Call_reconcileKubeconfig s1
            in (case reconcileKubeconfig w cluster of
                  Some err \<Rightarrow> (Inr (Result_zero, Some err), s2)
                | None \<Rightarrow>
                    let s3 = call Call_reconcileAdditionalKubeconfigs s2
                    in (case reconcileAdditionalKubeconfigs w cluster of
                          Some err \<Rightarrow> (Inr (Result_zero, Some err), s3)
                        | None \<Rightarrow>
                            let s4 = s3\<lparr>Status_Endpoint := Endpoint cluster\<rparr>;
                                s5 = MarkTrue ReadyCondition s4;
                                s6 = MarkTrue GKEControlPlaneReadyCondition s5;
                                s7 = MarkFalse GKEControlPlaneCreatingCondition
                                       GKEControlPlaneCreatedReason
                                       ConditionSeverityInfo (Literal []) s6;
                                s8 = s7\<lparr>Ready := True, Initialized := True\<rparr>
                            in (Inr (Result_zero, None), s8))))"

definition Reconcile_found ::
  "collaborators \<Rightarrow> scope \<Rightarrow> Cluster \<Rightarrow> status \<Rightarrow> (fault + outcome) \<times> status" where
  "Reconcile_found w sc cluster s0 =
     (let s = s0\<lparr>CurrentVersion := CurrentMasterVersion cluster\<rparr>
      in case Status cluster of
           Cluster_PROVISIONING \<Rightarrow>
             let s1 = MarkFalse ReadyCondition GKEControlPlaneCreatingReason
                        ConditionSeverityInfo (Literal []) s;
                 s2 = MarkFalse GKEControlPlaneReadyCondition GKEControlPlaneCreatingReason
                        ConditionSeverityInfo (Literal []) s1;
                 s3 = MarkTrue GKEControlPlaneCreatingCondition s2;
                 s4 = s3\<lparr>Initialized := False, Ready := False\<rparr>
             in (Inr (Result_zero\<lparr>RequeueAfter := DefaultRetryTime w\<rparr>, None), s4)
         | Cluster_RECONCILING \<Rightarrow>
             let s1 = MarkTrue GKEControlPlaneUpdatingCondition s;
                 s2 = s1\<lparr>Initialized := True, Ready := True\<rparr>
             in (Inr (Result_zero\<lparr>RequeueAfter := DefaultRetryTime w\<rparr>, None), s2)
         | Cluster_STOPPING \<Rightarrow>
             let s1 = MarkFalse ReadyCondition GKEControlPlaneDeletingReason
                        ConditionSeverityInfo (Literal []) s;
                 s2 = MarkFalse GKEControlPlaneReadyCondition GKEControlPlaneDeletingReason
                        ConditionSeverityInfo (Literal []) s1;
                 s3 = MarkTrue GKEControlPlaneDeletingCondition s2;
                 s4 = s3\<lparr>Initialized := False, Ready := False\<rparr>
             in (Inr (Result_zero\<lparr>RequeueAfter := DefaultRetryTime w\<rparr>, None), s4)
         | Cluster_ERROR \<Rightarrow>
             let s1 = MarkFalse GKEControlPlaneReadyCondition GKEControlPlaneErrorReason
                        ConditionSeverityError (Literal []) s;
                 s2 = s1\<lparr>Ready := False, Initialized := False\<rparr>
             in (Inr (Result_zero, None), s2)
         | Cluster_DEGRADED \<Rightarrow>
             let s1 = MarkFalse GKEControlPlaneReadyCondition GKEControlPlaneErrorReason
                        ConditionSeverityError (Literal []) s;
                 s2 = s1\<lparr>Ready := False, Initialized := False\<rparr>
             in (Inr (Result_zero, None), s2)
         | Cluster_RUNNING \<Rightarrow> Reconcile_running w sc cluster s
         | _ \<Rightarrow> (Inr (Result_zero, Some (NewErrUnexpectedClusterStatus (Status cluster))), s))"

definition Reconcile :: "collaborators \<Rightarrow> scope \<Rightarrow> status \<Rightarrow> (fault + outcome) \<times> status" where
  "Reconcile w sc s0 =
     (case describeCluster w sc s0 of
        (Inl err, s) \<Rightarrow>
          let s1 = s\<lparr>Initialized := False, Ready := False\<rparr>;
              s2 = MarkFalse ReadyCondition GKEControlPlaneReconciliationFailedReason
                     ConditionSeverityError (Error_of err) s1
          in (Inr (Result_zero, Some err), s2)
      | (Inr None, s) \<Rightarrow> Reconcile_notFound w sc s
      | (Inr (Some cluster), s) \<Rightarrow> Reconcile_found w sc cluster s)"

subsection \<open>Delete\<close>

definition Delete :: "collaborators \<Rightarrow> scope \<Rightarrow> status \<Rightarrow> (fault + outcome) \<times> status" where
  "Delete w sc s0 =
     (case describeCluster w sc s0 of
        (Inl err, s) \<Rightarrow> (Inr (Result_zero, Some err), s)
      | (Inr None, s) \<Rightarrow>
          let s1 = MarkFalse GKEControlPlaneDeletingCondition GKEControlPlaneDeletedReason
                     ConditionSeverityInfo (Literal []) s
          in (Inr (Result_zero, None), s1)
      | (Inr (Some cluster), s) \<Rightarrow>
          (case Status cluster of
             Cluster_PROVISIONING \<Rightarrow> (Inr (Result_zero, None), s)
           | Cluster_RECONCILING \<Rightarrow> (Inr (Result_zero, None), s)
           | Cluster_STOPPING \<Rightarrow>
               let s1 = MarkFalse GKEControlPlaneReadyCondition GKEControlPlaneDeletingReason
                          ConditionSeverityInfo (Literal []) s;
                   s2 = MarkTrue GKEControlPlaneDeletingCondition s1
               in (Inr (Result_zero, None), s2)
           | _ \<Rightarrow>
               (case deleteCluster w sc s of
                  (Some err, s1) \<Rightarrow>
                    let s2 = MarkFalse GKEControlPlaneDeletingCondition
                               GKEControlPlaneReconciliationFailedReason
                               ConditionSeverityError (Error_of err) s1
                    in (Inr (Result_zero, Some err), s2)
                | (None, s1) \<Rightarrow>
                    let s2 = s1\<lparr>Initialized := False, Ready := False\<rparr>;
                        s3 = MarkFalse ReadyCondition GKEControlPlaneDeletingReason
                               ConditionSeverityInfo (Literal []) s2;
                        s4 = MarkFalse GKEControlPlaneReadyCondition GKEControlPlaneDeletingReason
                               ConditionSeverityInfo (Literal []) s3;
                        s5 = MarkTrue GKEControlPlaneDeletingCondition s4
                    in (Inr (Result_zero, None), s5))))"

text \<open>Whether an event is a create call to the provider.\<close>

fun is_Call_CreateCluster :: "event \<Rightarrow> bool" where
  "is_Call_CreateCluster (Call_CreateCluster req) = True"
| "is_Call_CreateCluster e = False"

section \<open>Sample inputs\<close>

text \<open>
  A control plane without autopilot on the regular channel, asking for version 1.24, with no
  authorized-networks configuration; collaborators that all succeed; a running cluster at
  1.24.14-gke.2700 on the regular channel with authorized networks disabled; an empty status.
\<close>

definition ex_collaborators :: collaborators where
  "ex_collaborators =
     \<lparr>DefaultNumRegionsPerZone = 3,
      NormalizeMachineVersion = map_option (\<lambda>v. if take 1 v = ''v'' then drop 1 v else v),
      ConvertToSdkTaint =
        map (\<lambda>t. \<lparr>Key = spec_Key t, Value = spec_Value t, Effect = spec_Effect t\<rparr>),
      ManagedMachinePoolsPreflightCheck = (\<lambda>nodePools machinePools region. None),
      IsRegional = (\<lambda>region. True),
      DefaultRetryTime = 10000000000,
      cmp_Equal = (\<lambda>a b. Inr (a = b)),
      GetCluster = (\<lambda>name. Inl (APIError NotFound ''not found'')),
      CreateCluster = (\<lambda>req. None),
      UpdateCluster = (\<lambda>req. None),
      DeleteCluster = (\<lambda>name. None),
      reconcileKubeconfig = (\<lambda>cluster. None),
      reconcileAdditionalKubeconfigs = (\<lambda>cluster. None)\<rparr>"

definition ex_scope :: scope where
  "ex_scope =
     \<lparr>Spec_EnableAutopilot = False,
      Spec_ReleaseChannel = Some Regular,
      Spec_ControlPlaneVersion = Some ''1.24'',
      Spec_MasterAuthorizedNetworksConfig = None,
      Spec_EnableWorkloadIdentity = False,
      Spec_Project = ''p'',
      Spec_Network_Name = Some ''default'',
      Spec_Network_DatapathProvider = None,
      Spec_AddonsConfig = None,
      GCPManagedCluster_Labels = Map.empty,
      ClusterName = ''c1'',
      ClusterFullName = ''projects/p/locations/l/clusters/c1'',
      ClusterLocation = ''projects/p/locations/l'',
      Region = ''l'',
      IsAutopilotCluster = False,
      GetAllNodePools = ([], [], None)\<rparr>"

definition ex_cluster :: Cluster where
  "ex_cluster =
     Cluster_zero
       \<lparr>Name := ''c1'',
        ReleaseChannel := Some \<lparr>Channel = ReleaseChannel_REGULAR\<rparr>,
        MasterAuthorizedNetworksConfig :=
          Some \<lparr>Enabled = False, CidrBlocks = None, GcpPublicCidrsAccessEnabled = Some False\<rparr>,
        Status := Cluster_RUNNING,
        CurrentMasterVersion := ''1.24.14-gke.2700'',
        Endpoint := ''10.0.0.1''\<rparr>"

definition ex_status :: status where
  "ex_status =
     \<lparr>Initialized = False, Ready = False, CurrentVersion = [], Status_Endpoint = [],
      Conditions = Map.empty, events = []\<rparr>"

definition ex_nodePool :: GCPManagedMachinePool where
  "ex_nodePool =
     \<lparr>ObjectMeta_Name = ''pool-a'', NodePoolName = [], Scaling = None, Management = None,
      MachineType = ''e2-medium'', DiskSizeGb = 100, DiskType = ''pd-standard'',
      KubernetesLabels = Map.empty, KubernetesTaints = [], AdditionalLabels = Map.empty,
      ImageType = ''COS_CONTAINERD'', Preemptible = None, Spot = None\<rparr>"

definition ex_machinePool :: MachinePool where
  "ex_machinePool = \<lparr>Replicas = Some 3, Template_Version = Some ''v1.24.14''\<rparr>"

lemmas ex_defs =
  ex_collaborators_def ex_scope_def ex_cluster_def ex_status_def ex_nodePool_def
  ex_machinePool_def Cluster_zero_def ClusterUpdate_zero_def Result_zero_def

lemmas diff_defs =
  checkDiffAndPrepareUpdate_def diffReleaseChannel_def diffMasterVersion_def
  diffMasterAuthorizedNetworksConfig_def hasDesiredVersion_def strings_HasPrefix_def
  convertToSdkReleaseChannel_def convertToSdkMasterAuthorizedNetworksConfig_def
  compareMasterAuthorizedNetworksConfig_def len_def

lemmas mark_defs =
  MarkTrue_def MarkFalse_def set_condition_def TrueCondition_def FalseCondition_def call_def

lemmas run_defs =
  Reconcile_def Reconcile_notFound_def Reconcile_create_def Reconcile_found_def
  Reconcile_running_def Delete_def describeCluster_def createCluster_def updateCluster_def
  deleteCluster_def createAddonsConfig_def createNetworkConfig_def
  createWorkloadIdentityConfig_def ConvertToSdkNodePools_def ConvertToSdkNodePools_from.simps
  ConvertToSdkNodePool_def convertToSdkNodePoolAutoscaling_def convertToSdkNodeManagement_def
  int32_quo_def NewErrUnexpectedClusterStatus_def

section \<open>The version check of the diff step\<close>

lemma strings_HasPrefix_iff: "strings_HasPrefix s pre \<longleftrightarrow> (\<exists>t. s = pre @ t)"
proof
  assume "strings_HasPrefix s pre"
  then have "s = pre @ drop (length pre) s"
    by (metis append_take_drop_id strings_HasPrefix_def)
  then show "\<exists>t. s = pre @ t" ..
next
  assume "\<exists>t. s = pre @ t"
  then show "strings_HasPrefix s pre"
    by (auto simp: strings_HasPrefix_def)
qed

text \<open>What the master-version block computes: the flag is raised, and the master version put
  in the update, exactly when \<^verbatim>\<open>hasDesiredVersion\<close> answers true for a version that is set,
  that is when the desired version is a prefix of the observed one or equal to it.\<close>

lemma diffMasterVersion_raises_iff:
  "diffMasterVersion sc existingCluster (False, u) = Inr (True, u') \<longleftrightarrow>
     (\<exists>v. Spec_ControlPlaneVersion sc = Some v
        \<and> (strings_HasPrefix (CurrentMasterVersion existingCluster) v
            \<or> v = CurrentMasterVersion existingCluster)
        \<and> u' = u\<lparr>DesiredMasterVersion := v\<rparr>)"
  by (auto simp: diffMasterVersion_def hasDesiredVersion_def split: option.splits)

lemma diffMasterVersion_unset:
  "Spec_ControlPlaneVersion sc = None \<Longrightarrow>
     diffMasterVersion sc existingCluster acc = Inl NilPointerDereference"
  by (simp add: diffMasterVersion_def hasDesiredVersion_def split: prod.splits)

text \<open>
  C1. The claim: a version update is reported, and the master version put in the request,
  exactly when the desired version is set, is not a prefix of the observed version and
  differs from it. On the sample input the desired version 1.24 is a prefix of the observed
  1.24.14-gke.2700 and the diff step reports an update carrying master version 1.24; with
  the desired version 1.27, which is neither a prefix of the observed version nor equal to
  it, the diff step reports no update and leaves the master version empty.
\<close>

theorem C1_version_update_on_match:
  "checkDiffAndPrepareUpdate ex_collaborators ex_scope ex_cluster =
     Inr (True, \<lparr>Update_Name = ''projects/p/locations/l/clusters/c1'',
                 Update = ClusterUpdate_zero\<lparr>DesiredMasterVersion := ''1.24''\<rparr>\<rparr>)
   \<and> checkDiffAndPrepareUpdate ex_collaborators
        (ex_scope\<lparr>Spec_ControlPlaneVersion := Some ''1.27''\<rparr>) ex_cluster =
     Inr (False, \<lparr>Update_Name = ''projects/p/locations/l/clusters/c1'',
                  Update = ClusterUpdate_zero\<rparr>)"
  by (simp add: diff_defs ex_defs)

text \<open>
  C2. The claim: with a running cluster and no desired version, the diff step completes
  without fault and asks for no version update. On the sample input with the desired version
  unset, the pass ends in a nil-pointer dereference: \<^verbatim>\<open>hasDesiredVersion\<close> answers true
  and the caller reads through the nil pointer.
\<close>

theorem C2_unset_version_panics:
  "checkDiffAndPrepareUpdate ex_collaborators
     (ex_scope\<lparr>Spec_ControlPlaneVersion := None\<rparr>) ex_cluster = Inl NilPointerDereference
   \<and> fst (Reconcile (ex_collaborators\<lparr>GetCluster := (\<lambda>name. Inr ex_cluster)\<rparr>)
            (ex_scope\<lparr>Spec_ControlPlaneVersion := None\<rparr>) ex_status)
     = Inl NilPointerDereference"
  by (simp add: Reconcile_def describeCluster_def Reconcile_found_def Reconcile_running_def
      call_def diff_defs ex_defs)

section \<open>The describe step\<close>

lemma describeCluster_found:
  "GetCluster w (ClusterFullName sc) = Inr cluster \<Longrightarrow>
   describeCluster w sc s = (Inr (Some cluster), call (Call_GetCluster (ClusterFullName sc)) s)"
  by (simp add: describeCluster_def)

lemma describeCluster_notFound:
  "GetCluster w (ClusterFullName sc) = Inl err \<Longrightarrow> errors_As_APIError err = Some NotFound \<Longrightarrow>
   describeCluster w sc s = (Inr None, call (Call_GetCluster (ClusterFullName sc)) s)"
  by (simp add: describeCluster_def)

lemma describeCluster_error:
  "GetCluster w (ClusterFullName sc) = Inl err \<Longrightarrow> errors_As_APIError err \<noteq> Some NotFound \<Longrightarrow>
   describeCluster w sc s = (Inl err, call (Call_GetCluster (ClusterFullName sc)) s)"
  by (auto simp add: describeCluster_def Let_def split: option.splits)

lemma Reconcile_observed:
  "GetCluster w (ClusterFullName sc) = Inr cluster \<Longrightarrow>
   Reconcile w sc s0 = Reconcile_found w sc cluster (call (Call_GetCluster (ClusterFullName sc)) s0)"
  by (simp add: Reconcile_def describeCluster_found)

lemma Reconcile_absent:
  "GetCluster w (ClusterFullName sc) = Inl err \<Longrightarrow> errors_As_APIError err = Some NotFound \<Longrightarrow>
   Reconcile w sc s0 = Reconcile_notFound w sc (call (Call_GetCluster (ClusterFullName sc)) s0)"
  by (simp add: Reconcile_def describeCluster_notFound)

lemma Delete_observed:
  "GetCluster w (ClusterFullName sc) = Inr cluster \<Longrightarrow>
   Delete w sc s0 =
     (case Status cluster of
        Cluster_PROVISIONING \<Rightarrow> (Inr (Result_zero, None), call (Call_GetCluster (ClusterFullName sc)) s0)
      | Cluster_RECONCILING \<Rightarrow> (Inr (Result_zero, None), call (Call_GetCluster (ClusterFullName sc)) s0)
      | Cluster_STOPPING \<Rightarrow>
          (Inr (Result_zero, None),
           MarkTrue GKEControlPlaneDeletingCondition
             (MarkFalse GKEControlPlaneReadyCondition GKEControlPlaneDeletingReason
                ConditionSeverityInfo (Literal []) (call (Call_GetCluster (ClusterFullName sc)) s0)))
      | _ \<Rightarrow>
          (case DeleteCluster w (ClusterFullName sc) of
             Some err \<Rightarrow>
               (Inr (Result_zero, Some err),
                MarkFalse GKEControlPlaneDeletingCondition GKEControlPlaneReconciliationFailedReason
                  ConditionSeverityError (Error_of err)
                  (call (Call_DeleteCluster (ClusterFullName sc))
                     (call (Call_GetCluster (ClusterFullName sc)) s0)))
           | None \<Rightarrow>
               (Inr (Result_zero, None),
                MarkTrue GKEControlPlaneDeletingCondition
                  (MarkFalse GKEControlPlaneReadyCondition GKEControlPlaneDeletingReason
                     ConditionSeverityInfo (Literal [])
                     (MarkFalse ReadyCondition GKEControlPlaneDeletingReason
                        ConditionSeverityInfo (Literal [])
                        ((call (Call_DeleteCluster (ClusterFullName sc))
                           (call (Call_GetCluster (ClusterFullName sc)) s0))
                         \<lparr>Initialized := False, Ready := False\<rparr>))))))"
  by (simp add: Delete_def describeCluster_found deleteCluster_def Let_def
      split: Cluster_Status.splits option.splits)

lemma Reconcile_notFound_create:
  assumes "GetAllNodePools sc = (nps, mps, None)"
    and "\<not> (IsAutopilotCluster sc \<and> length nps > 0)"
    and "\<not> (\<not> IsAutopilotCluster sc \<and> length nps = 0)"
  shows "Reconcile_notFound w sc s = Reconcile_create w sc (s\<lparr>Initialized := False, Ready := False\<rparr>)"
  using assms by (auto simp: Reconcile_notFound_def Let_def)

lemma createCluster_status:
  "\<exists>evs. snd (createCluster w sc s) = s\<lparr>events := events s @ evs\<rparr>"
proof (cases "\<exists>req. snd (createCluster w sc s) = call (Call_CreateCluster req) s")
  case True
  then show ?thesis by (auto simp: call_def)
next
  case False
  then have "snd (createCluster w sc s) = s"
    by (auto simp: createCluster_def Let_def split: prod.splits option.splits sum.splits if_splits)
  then have "snd (createCluster w sc s) = s\<lparr>events := events s @ []\<rparr>" by simp
  then show ?thesis by blast
qed

lemma fst_createCluster:
  "fst (createCluster w sc s) = fst (createCluster w sc s')"
  by (auto simp: createCluster_def Let_def split: prod.splits option.splits sum.splits if_splits)

lemma createCluster_calls_provider:
  assumes "GetAllNodePools sc = (nodePools, machinePools, err)"
    and "ManagedMachinePoolsPreflightCheck w nodePools machinePools (Region sc) = None"
    and "Spec_Network_Name sc \<noteq> None"
    and "IsAutopilotCluster sc
         \<or> (\<exists>pools. ConvertToSdkNodePools w nodePools machinePools (IsRegional w (Region sc))
                      = Inr pools)"
  shows "\<exists>req. createCluster w sc s = (Inr (CreateCluster w req), call (Call_CreateCluster req) s)"
  using assms by (auto simp: createCluster_def Let_def)

section \<open>The authorized-networks comparison\<close>

text \<open>
  The comparison in closed form. Two configurations that are both present differ when the
  enabled flags differ or the public-access pointers differ (in presence or in value);
  otherwise they are equal when one allow-list is nil and the other empty; otherwise the
  verdict is the one of the library comparison on the two allow-lists.
\<close>

lemma compare_Some_Some:
  "compareMasterAuthorizedNetworksConfig cmpEqual (Some a) (Some b) =
     (if Enabled a \<noteq> Enabled b \<or> GcpPublicCidrsAccessEnabled a \<noteq> GcpPublicCidrsAccessEnabled b
      then Inr False
      else if CidrBlocks a = None \<and> CidrBlocks b = Some []
              \<or> CidrBlocks a = Some [] \<and> CidrBlocks b = None
      then Inr True
      else cmpEqual (CidrBlocks a) (CidrBlocks b))"
proof -
  have lib: "(case r of Inl f \<Rightarrow> Inl f | Inr eq \<Rightarrow> if \<not> eq then Inr False else Inr True) = r"
    for r :: "fault + bool"
    by (cases r) auto
  show ?thesis
    by (cases "GcpPublicCidrsAccessEnabled a"; cases "GcpPublicCidrsAccessEnabled b";
        cases "CidrBlocks a"; cases "CidrBlocks b")
       (simp_all add: compareMasterAuthorizedNetworksConfig_def len_def lib)
qed

lemma compare_None:
  "compareMasterAuthorizedNetworksConfig cmpEqual None None = Inr True"
  "compareMasterAuthorizedNetworksConfig cmpEqual (Some a) None = Inr False"
  "compareMasterAuthorizedNetworksConfig cmpEqual None (Some b) = Inr False"
  by (simp_all add: compareMasterAuthorizedNetworksConfig_def)

lemma diffMasterAuthorizedNetworksConfig_eq:
  "diffMasterAuthorizedNetworksConfig w sc existingCluster (needUpdate, clusterUpdate) =
     (case compareMasterAuthorizedNetworksConfig (cmp_Equal w)
             (convertToSdkMasterAuthorizedNetworksConfig (Spec_MasterAuthorizedNetworksConfig sc))
             (MasterAuthorizedNetworksConfig existingCluster) of
        Inl f \<Rightarrow> Inl f
      | Inr equal \<Rightarrow>
          if equal then Inr (needUpdate, clusterUpdate)
          else Inr (True, clusterUpdate
                     \<lparr>DesiredMasterAuthorizedNetworksConfig :=
                        convertToSdkMasterAuthorizedNetworksConfig
                          (Spec_MasterAuthorizedNetworksConfig sc)\<rparr>))"
  by (simp add: diffMasterAuthorizedNetworksConfig_def Let_def split: sum.splits)

lemma diff_unset_differs:
  assumes "Spec_MasterAuthorizedNetworksConfig sc = None"
    and "MasterAuthorizedNetworksConfig existingCluster = None
         \<or> (\<exists>b'. MasterAuthorizedNetworksConfig existingCluster = Some b'
               \<and> (Enabled b' \<or> GcpPublicCidrsAccessEnabled b' \<noteq> Some False))"
  shows "diffMasterAuthorizedNetworksConfig w sc existingCluster (needUpdate, clusterUpdate) =
            Inr (True, clusterUpdate
                   \<lparr>DesiredMasterAuthorizedNetworksConfig :=
                      Some \<lparr>Enabled = False, CidrBlocks = Some [],
                            GcpPublicCidrsAccessEnabled = Some False\<rparr>\<rparr>)"
proof -
  let ?d = "\<lparr>Enabled = False, CidrBlocks = Some [], GcpPublicCidrsAccessEnabled = Some False\<rparr>"
  have conv: "convertToSdkMasterAuthorizedNetworksConfig (Spec_MasterAuthorizedNetworksConfig sc) = Some ?d"
    using assms(1) by (simp add: convertToSdkMasterAuthorizedNetworksConfig_def)
  have "compareMasterAuthorizedNetworksConfig (cmp_Equal w) (Some ?d)
          (MasterAuthorizedNetworksConfig existingCluster) = Inr False"
  proof (cases "MasterAuthorizedNetworksConfig existingCluster")
    case None
    then show ?thesis by (simp add: compare_None)
  next
    case (Some b')
    with assms(2) have "Enabled b' \<or> GcpPublicCidrsAccessEnabled b' \<noteq> Some False" by simp
    then show ?thesis unfolding Some compare_Some_Some by auto
  qed
  then show ?thesis
    unfolding diffMasterAuthorizedNetworksConfig_eq conv by simp
qed

lemma diff_set_differs:
  assumes "Spec_MasterAuthorizedNetworksConfig sc = Some c"
    and "MasterAuthorizedNetworksConfig existingCluster = None
         \<or> (\<exists>b'. MasterAuthorizedNetworksConfig existingCluster = Some b'
               \<and> (\<not> Enabled b'
                   \<or> GcpPublicCidrsAccessEnabled b' \<noteq> spec_GcpPublicCidrsAccessEnabled c))"
  shows "diffMasterAuthorizedNetworksConfig w sc existingCluster (needUpdate, clusterUpdate) =
            Inr (True, clusterUpdate
                   \<lparr>DesiredMasterAuthorizedNetworksConfig :=
                      Some \<lparr>Enabled = True,
                            CidrBlocks = Some (map convertCidrBlock (spec_CidrBlocks c)),
                            GcpPublicCidrsAccessEnabled = spec_GcpPublicCidrsAccessEnabled c\<rparr>\<rparr>)"
proof -
  let ?d = "\<lparr>Enabled = True, CidrBlocks = Some (map convertCidrBlock (spec_CidrBlocks c)),
             GcpPublicCidrsAccessEnabled = spec_GcpPublicCidrsAccessEnabled c\<rparr>"
  have conv: "convertToSdkMasterAuthorizedNetworksConfig (Spec_MasterAuthorizedNetworksConfig sc) = Some ?d"
    using assms(1) by (simp add: convertToSdkMasterAuthorizedNetworksConfig_def)
  have "compareMasterAuthorizedNetworksConfig (cmp_Equal w) (Some ?d)
          (MasterAuthorizedNetworksConfig existingCluster) = Inr False"
  proof (cases "MasterAuthorizedNetworksConfig existingCluster")
    case None
    then show ?thesis by (simp add: compare_None)
  next
    case (Some b')
    with assms(2) have "\<not> Enabled b'
        \<or> GcpPublicCidrsAccessEnabled b' \<noteq> spec_GcpPublicCidrsAccessEnabled c" by simp
    then show ?thesis unfolding Some compare_Some_Some by auto
  qed
  then show ?thesis
    unfolding diffMasterAuthorizedNetworksConfig_eq conv by simp
qed

text \<open>
  C4. An unset desired configuration is converted to the disabled form (not enabled, an
  empty allow-list that is not nil, a public-access pointer to false); no desired
  configuration converts to nil, so the diff step always compares a structure, and against an
  absent observed configuration the disabled form counts as different. The comparison is
  structural: nil against nil is equal and nil against a configuration is different; two
  configurations with different enabled flags or different public-access pointers (in
  presence or in value) are different; two configurations that agree on both and whose
  allow-lists are nil on one side and empty on the other are equal; in every other case the
  verdict is that of the library comparison on the two allow-lists. Hence equal
  configurations have the same enabled flag and the same public-access pointer. In the diff
  step an unset desired configuration against an observed one that is absent, enabled, or
  whose public-access pointer is not a pointer to false raises the flag and puts the disabled
  form in the update; a set desired configuration against an observed one that is absent, not
  enabled, or has another public-access pointer raises the flag and puts the converted
  configuration in the update.
\<close>

theorem C4_authorized_networks_rules:
  "convertToSdkMasterAuthorizedNetworksConfig None =
     Some \<lparr>Enabled = False, CidrBlocks = Some [], GcpPublicCidrsAccessEnabled = Some False\<rparr>
   \<and> convertToSdkMasterAuthorizedNetworksConfig config \<noteq> None
   \<and> compareMasterAuthorizedNetworksConfig cmpEqual
        (convertToSdkMasterAuthorizedNetworksConfig None) None = Inr False
   \<and> (Spec_MasterAuthorizedNetworksConfig sc = None \<longrightarrow>
        diffMasterAuthorizedNetworksConfig w sc existingCluster (needUpdate, clusterUpdate) =
          (case compareMasterAuthorizedNetworksConfig (cmp_Equal w)
                  (Some \<lparr>Enabled = False, CidrBlocks = Some [],
                         GcpPublicCidrsAccessEnabled = Some False\<rparr>)
                  (MasterAuthorizedNetworksConfig existingCluster) of
             Inl f \<Rightarrow> Inl f
           | Inr equal \<Rightarrow>
               if equal then Inr (needUpdate, clusterUpdate)
               else Inr (True, clusterUpdate
                          \<lparr>DesiredMasterAuthorizedNetworksConfig :=
                             Some \<lparr>Enabled = False, CidrBlocks = Some [],
                                   GcpPublicCidrsAccessEnabled = Some False\<rparr>\<rparr>)))
   \<and> (Enabled a = Enabled b \<and> GcpPublicCidrsAccessEnabled a = GcpPublicCidrsAccessEnabled b
        \<and> (CidrBlocks a = None \<and> CidrBlocks b = Some []
            \<or> CidrBlocks a = Some [] \<and> CidrBlocks b = None)
      \<longrightarrow> compareMasterAuthorizedNetworksConfig cmpEqual (Some a) (Some b) = Inr True)
   \<and> (compareMasterAuthorizedNetworksConfig cmpEqual (Some a) (Some b) = Inr True
      \<longrightarrow> GcpPublicCidrsAccessEnabled a = GcpPublicCidrsAccessEnabled b
          \<and> Enabled a = Enabled b)
   \<and> (Enabled a \<noteq> Enabled b \<or> GcpPublicCidrsAccessEnabled a \<noteq> GcpPublicCidrsAccessEnabled b
      \<longrightarrow> compareMasterAuthorizedNetworksConfig cmpEqual (Some a) (Some b) = Inr False)
   \<and> (Enabled a = Enabled b \<and> GcpPublicCidrsAccessEnabled a = GcpPublicCidrsAccessEnabled b
        \<and> \<not> (CidrBlocks a = None \<and> CidrBlocks b = Some []
               \<or> CidrBlocks a = Some [] \<and> CidrBlocks b = None)
      \<longrightarrow> compareMasterAuthorizedNetworksConfig cmpEqual (Some a) (Some b)
            = cmpEqual (CidrBlocks a) (CidrBlocks b))
   \<and> compareMasterAuthorizedNetworksConfig cmpEqual None None = Inr True
   \<and> compareMasterAuthorizedNetworksConfig cmpEqual (Some a) None = Inr False
   \<and> compareMasterAuthorizedNetworksConfig cmpEqual None (Some b) = Inr False
   \<and> (Spec_MasterAuthorizedNetworksConfig sc = None
        \<and> (MasterAuthorizedNetworksConfig existingCluster = None
            \<or> (\<exists>b'. MasterAuthorizedNetworksConfig existingCluster = Some b'
                  \<and> (Enabled b' \<or> GcpPublicCidrsAccessEnabled b' \<noteq> Some False)))
      \<longrightarrow> diffMasterAuthorizedNetworksConfig w sc existingCluster (needUpdate, clusterUpdate) =
            Inr (True, clusterUpdate
                   \<lparr>DesiredMasterAuthorizedNetworksConfig :=
                      Some \<lparr>Enabled = False, CidrBlocks = Some [],
                            GcpPublicCidrsAccessEnabled = Some False\<rparr>\<rparr>))
   \<and> (\<forall>c. Spec_MasterAuthorizedNetworksConfig sc = Some c
        \<and> (MasterAuthorizedNetworksConfig existingCluster = None
            \<or> (\<exists>b'. MasterAuthorizedNetworksConfig existingCluster = Some b'
                  \<and> (\<not> Enabled b'
                      \<or> GcpPublicCidrsAccessEnabled b' \<noteq> spec_GcpPublicCidrsAccessEnabled c)))
      \<longrightarrow> diffMasterAuthorizedNetworksConfig w sc existingCluster (needUpdate, clusterUpdate) =
            Inr (True, clusterUpdate
                   \<lparr>DesiredMasterAuthorizedNetworksConfig :=
                      Some \<lparr>Enabled = True,
                            CidrBlocks = Some (map convertCidrBlock (spec_CidrBlocks c)),
                            GcpPublicCidrsAccessEnabled = spec_GcpPublicCidrsAccessEnabled c\<rparr>\<rparr>))"
proof (intro conjI)
  show "convertToSdkMasterAuthorizedNetworksConfig None =
     Some \<lparr>Enabled = False, CidrBlocks = Some [], GcpPublicCidrsAccessEnabled = Some False\<rparr>"
    by (simp add: convertToSdkMasterAuthorizedNetworksConfig_def)
  show "convertToSdkMasterAuthorizedNetworksConfig config \<noteq> None"
    by (simp add: convertToSdkMasterAuthorizedNetworksConfig_def split: option.splits)
  show "compareMasterAuthorizedNetworksConfig cmpEqual
        (convertToSdkMasterAuthorizedNetworksConfig None) None = Inr False"
    by (simp add: convertToSdkMasterAuthorizedNetworksConfig_def compare_None)
  show "Spec_MasterAuthorizedNetworksConfig sc = None \<longrightarrow>
        diffMasterAuthorizedNetworksConfig w sc existingCluster (needUpdate, clusterUpdate) =
          (case compareMasterAuthorizedNetworksConfig (cmp_Equal w)
                  (Some \<lparr>Enabled = False, CidrBlocks = Some [],
                         GcpPublicCidrsAccessEnabled = Some False\<rparr>)
                  (MasterAuthorizedNetworksConfig existingCluster) of
             Inl f \<Rightarrow> Inl f
           | Inr equal \<Rightarrow>
               if equal then Inr (needUpdate, clusterUpdate)
               else Inr (True, clusterUpdate
                          \<lparr>DesiredMasterAuthorizedNetworksConfig :=
                             Some \<lparr>Enabled = False, CidrBlocks = Some [],
                                   GcpPublicCidrsAccessEnabled = Some False\<rparr>\<rparr>))"
    by (simp add: diffMasterAuthorizedNetworksConfig_eq
        convertToSdkMasterAuthorizedNetworksConfig_def split: sum.splits)
  show "Enabled a = Enabled b \<and> GcpPublicCidrsAccessEnabled a = GcpPublicCidrsAccessEnabled b
        \<and> (CidrBlocks a = None \<and> CidrBlocks b = Some []
            \<or> CidrBlocks a = Some [] \<and> CidrBlocks b = None)
      \<longrightarrow> compareMasterAuthorizedNetworksConfig cmpEqual (Some a) (Some b) = Inr True"
    by (simp add: compare_Some_Some)
  show "compareMasterAuthorizedNetworksConfig cmpEqual (Some a) (Some b) = Inr True
      \<longrightarrow> GcpPublicCidrsAccessEnabled a = GcpPublicCidrsAccessEnabled b
          \<and> Enabled a = Enabled b"
    by (simp add: compare_Some_Some split: if_splits)
  show "Enabled a \<noteq> Enabled b \<or> GcpPublicCidrsAccessEnabled a \<noteq> GcpPublicCidrsAccessEnabled b
      \<longrightarrow> compareMasterAuthorizedNetworksConfig cmpEqual (Some a) (Some b) = Inr False"
    by (simp add: compare_Some_Some)
  show "Enabled a = Enabled b \<and> GcpPublicCidrsAccessEnabled a = GcpPublicCidrsAccessEnabled b
        \<and> \<not> (CidrBlocks a = None \<and> CidrBlocks b = Some []
               \<or> CidrBlocks a = Some [] \<and> CidrBlocks b = None)
      \<longrightarrow> compareMasterAuthorizedNetworksConfig cmpEqual (Some a) (Some b)
            = cmpEqual (CidrBlocks a) (CidrBlocks b)"
    by (simp add: compare_Some_Some)
  show "compareMasterAuthorizedNetworksConfig cmpEqual None None = Inr True"
    "compareMasterAuthorizedNetworksConfig cmpEqual (Some a) None = Inr False"
    "compareMasterAuthorizedNetworksConfig cmpEqual None (Some b) = Inr False"
    by (simp_all add: compare_None)
  show "Spec_MasterAuthorizedNetworksConfig sc = None
        \<and> (MasterAuthorizedNetworksConfig existingCluster = None
            \<or> (\<exists>b'. MasterAuthorizedNetworksConfig existingCluster = Some b'
                  \<and> (Enabled b' \<or> GcpPublicCidrsAccessEnabled b' \<noteq> Some False)))
      \<longrightarrow> diffMasterAuthorizedNetworksConfig w sc existingCluster (needUpdate, clusterUpdate) =
            Inr (True, clusterUpdate
                   \<lparr>DesiredMasterAuthorizedNetworksConfig :=
                      Some \<lparr>Enabled = False, CidrBlocks = Some [],
                            GcpPublicCidrsAccessEnabled = Some False\<rparr>\<rparr>)"
    using diff_unset_differs [of sc existingCluster w needUpdate clusterUpdate] by blast
  show "\<forall>c. Spec_MasterAuthorizedNetworksConfig sc = Some c
        \<and> (MasterAuthorizedNetworksConfig existingCluster = None
            \<or> (\<exists>b'. MasterAuthorizedNetworksConfig existingCluster = Some b'
                  \<and> (\<not> Enabled b'
                      \<or> GcpPublicCidrsAccessEnabled b' \<noteq> spec_GcpPublicCidrsAccessEnabled c)))
      \<longrightarrow> diffMasterAuthorizedNetworksConfig w sc existingCluster (needUpdate, clusterUpdate) =
            Inr (True, clusterUpdate
                   \<lparr>DesiredMasterAuthorizedNetworksConfig :=
                      Some \<lparr>Enabled = True,
                            CidrBlocks = Some (map convertCidrBlock (spec_CidrBlocks c)),
                            GcpPublicCidrsAccessEnabled = spec_GcpPublicCidrsAccessEnabled c\<rparr>\<rparr>)"
    using diff_set_differs [of sc _ existingCluster w needUpdate clusterUpdate] by blast
qed

theorem C4_authorized_networks_rules_witness:
  "Spec_MasterAuthorizedNetworksConfig ex_scope = None
   \<and> diffMasterAuthorizedNetworksConfig ex_collaborators ex_scope ex_cluster
        (False, ClusterUpdate_zero) = Inr (False, ClusterUpdate_zero)
   \<and> compareMasterAuthorizedNetworksConfig (cmp_Equal ex_collaborators)
        (Some \<lparr>Enabled = False, CidrBlocks = Some [], GcpPublicCidrsAccessEnabled = Some False\<rparr>)
        (Some \<lparr>Enabled = False, CidrBlocks = None, GcpPublicCidrsAccessEnabled = Some False\<rparr>)
      = Inr True
   \<and> compareMasterAuthorizedNetworksConfig (cmp_Equal ex_collaborators)
        (Some \<lparr>Enabled = False, CidrBlocks = Some [], GcpPublicCidrsAccessEnabled = Some False\<rparr>)
        (Some \<lparr>Enabled = True,
               CidrBlocks = Some [\<lparr>DisplayName = ''office'', CidrBlock = ''10.0.0.0/8''\<rparr>],
               GcpPublicCidrsAccessEnabled = Some False\<rparr>)
      = Inr False
   \<and> compareMasterAuthorizedNetworksConfig (cmp_Equal ex_collaborators)
        (Some \<lparr>Enabled = False, CidrBlocks = Some [], GcpPublicCidrsAccessEnabled = Some False\<rparr>)
        (Some \<lparr>Enabled = False, CidrBlocks = Some [], GcpPublicCidrsAccessEnabled = None\<rparr>)
      = Inr False
   \<and> compareMasterAuthorizedNetworksConfig (cmp_Equal ex_collaborators)
        (Some \<lparr>Enabled = True, CidrBlocks = Some [], GcpPublicCidrsAccessEnabled = None\<rparr>)
        (Some \<lparr>Enabled = True, CidrBlocks = Some [], GcpPublicCidrsAccessEnabled = None\<rparr>)
      = cmp_Equal ex_collaborators (Some []) (Some [])
   \<and> diffMasterAuthorizedNetworksConfig ex_collaborators ex_scope
        (ex_cluster\<lparr>MasterAuthorizedNetworksConfig :=
           Some \<lparr>Enabled = True,
                 CidrBlocks = Some [\<lparr>DisplayName = ''office'', CidrBlock = ''10.0.0.0/8''\<rparr>],
                 GcpPublicCidrsAccessEnabled = Some False\<rparr>\<rparr>)
        (False, ClusterUpdate_zero)
      = Inr (True, ClusterUpdate_zero
               \<lparr>DesiredMasterAuthorizedNetworksConfig :=
                  Some \<lparr>Enabled = False, CidrBlocks = Some [],
                        GcpPublicCidrsAccessEnabled = Some False\<rparr>\<rparr>)
   \<and> diffMasterAuthorizedNetworksConfig ex_collaborators
        (ex_scope\<lparr>Spec_MasterAuthorizedNetworksConfig :=
           Some \<lparr>spec_CidrBlocks = [\<lparr>spec_DisplayName = ''office'', spec_CidrBlock = ''10.0.0.0/8''\<rparr>],
                 spec_GcpPublicCidrsAccessEnabled = None\<rparr>\<rparr>)
        ex_cluster (False, ClusterUpdate_zero)
      = Inr (True, ClusterUpdate_zero
               \<lparr>DesiredMasterAuthorizedNetworksConfig :=
                  Some \<lparr>Enabled = True,
                        CidrBlocks = Some [\<lparr>DisplayName = ''office'', CidrBlock = ''10.0.0.0/8''\<rparr>],
                        GcpPublicCidrsAccessEnabled = None\<rparr>\<rparr>)"
  using
    C4_authorized_networks_rules
      [where sc = ex_scope and w = ex_collaborators and existingCluster = ex_cluster
         and needUpdate = False and clusterUpdate = ClusterUpdate_zero
         and a = "\<lparr>Enabled = False, CidrBlocks = Some [], GcpPublicCidrsAccessEnabled = Some False\<rparr>"
         and b = "\<lparr>Enabled = False, CidrBlocks = None, GcpPublicCidrsAccessEnabled = Some False\<rparr>"
         and cmpEqual = "cmp_Equal ex_collaborators"]
    C4_authorized_networks_rules
      [where sc = ex_scope and w = ex_collaborators
         and existingCluster = "ex_cluster\<lparr>MasterAuthorizedNetworksConfig :=
           Some \<lparr>Enabled = True,
                 CidrBlocks = Some [\<lparr>DisplayName = ''office'', CidrBlock = ''10.0.0.0/8''\<rparr>],
                 GcpPublicCidrsAccessEnabled = Some False\<rparr>\<rparr>"
         and needUpdate = False and clusterUpdate = ClusterUpdate_zero
         and a = "\<lparr>Enabled = False, CidrBlocks = Some [], GcpPublicCidrsAccessEnabled = Some False\<rparr>"
         and b = "\<lparr>Enabled = True,
               CidrBlocks = Some [\<lparr>DisplayName = ''office'', CidrBlock = ''10.0.0.0/8''\<rparr>],
               GcpPublicCidrsAccessEnabled = Some False\<rparr>"
         and cmpEqual = "cmp_Equal ex_collaborators"]
    C4_authorized_networks_rules
      [where sc = "ex_scope\<lparr>Spec_MasterAuthorizedNetworksConfig :=
           Some \<lparr>spec_CidrBlocks = [\<lparr>spec_DisplayName = ''office'', spec_CidrBlock = ''10.0.0.0/8''\<rparr>],
                 spec_GcpPublicCidrsAccessEnabled = None\<rparr>\<rparr>"
         and w = ex_collaborators and existingCluster = ex_cluster
         and needUpdate = False and clusterUpdate = ClusterUpdate_zero
         and a = "\<lparr>Enabled = False, CidrBlocks = Some [], GcpPublicCidrsAccessEnabled = Some False\<rparr>"
         and b = "\<lparr>Enabled = False, CidrBlocks = Some [], GcpPublicCidrsAccessEnabled = None\<rparr>"
         and cmpEqual = "cmp_Equal ex_collaborators"]
    C4_authorized_networks_rules
      [where a = "\<lparr>Enabled = True, CidrBlocks = Some [], GcpPublicCidrsAccessEnabled = None\<rparr>"
         and b = "\<lparr>Enabled = True, CidrBlocks = Some [], GcpPublicCidrsAccessEnabled = None\<rparr>"
         and cmpEqual = "cmp_Equal ex_collaborators"]
  by (simp add: ex_defs convertCidrBlock_def)

section \<open>The lifecycle dispatch of Reconcile\<close>

text \<open>
  C3. When the describe step returns a cluster, Reconcile dispatches on its status:
  provisioning, reconciling and stopping each end the pass with a requeue after the retry
  interval, with the two flags false, true and false respectively and the creating, updating
  and deleting condition true; error and degraded end it with the zero result and no error,
  both flags false and the control-plane ready condition false with the error reason; a
  status other than these and running ends it with the unexpected-status error. In each case
  the events of the pass are the lookup and the condition writes listed, and no other call.
\<close>

theorem C3_lifecycle_dispatch:
  assumes "GetCluster w (ClusterFullName sc) = Inr cluster"
  shows
    "(Status cluster = Cluster_PROVISIONING \<longrightarrow>
        fst (Reconcile w sc s0) = Inr (Result_zero\<lparr>RequeueAfter := DefaultRetryTime w\<rparr>, None)
        \<and> \<not> Initialized (snd (Reconcile w sc s0)) \<and> \<not> Ready (snd (Reconcile w sc s0))
        \<and> Conditions (snd (Reconcile w sc s0)) GKEControlPlaneCreatingCondition = Some TrueCondition
        \<and> events (snd (Reconcile w sc s0)) =
            events s0 @
            [Call_GetCluster (ClusterFullName sc),
             Mark ReadyCondition
               (FalseCondition GKEControlPlaneCreatingReason ConditionSeverityInfo (Literal [])),
             Mark GKEControlPlaneReadyCondition
               (FalseCondition GKEControlPlaneCreatingReason ConditionSeverityInfo (Literal [])),
             Mark GKEControlPlaneCreatingCondition TrueCondition])
   \<and> (Status cluster = Cluster_RECONCILING \<longrightarrow>
        fst (Reconcile w sc s0) = Inr (Result_zero\<lparr>RequeueAfter := DefaultRetryTime w\<rparr>, None)
        \<and> Initialized (snd (Reconcile w sc s0)) \<and> Ready (snd (Reconcile w sc s0))
        \<and> Conditions (snd (Reconcile w sc s0)) GKEControlPlaneUpdatingCondition = Some TrueCondition
        \<and> events (snd (Reconcile w sc s0)) =
            events s0 @
            [Call_GetCluster (ClusterFullName sc),
             Mark GKEControlPlaneUpdatingCondition TrueCondition])
   \<and> (Status cluster = Cluster_STOPPING \<longrightarrow>
        fst (Reconcile w sc s0) = Inr (Result_zero\<lparr>RequeueAfter := DefaultRetryTime w\<rparr>, None)
        \<and> \<not> Initialized (snd (Reconcile w sc s0)) \<and> \<not> Ready (snd (Reconcile w sc s0))
        \<and> Conditions (snd (Reconcile w sc s0)) GKEControlPlaneDeletingCondition = Some TrueCondition
        \<and> events (snd (Reconcile w sc s0)) =
            events s0 @
            [Call_GetCluster (ClusterFullName sc),
             Mark ReadyCondition
               (FalseCondition GKEControlPlaneDeletingReason ConditionSeverityInfo (Literal [])),
             Mark GKEControlPlaneReadyCondition
               (FalseCondition GKEControlPlaneDeletingReason ConditionSeverityInfo (Literal [])),
             Mark GKEControlPlaneDeletingCondition TrueCondition])
   \<and> (Status cluster = Cluster_ERROR \<or> Status cluster = Cluster_DEGRADED \<longrightarrow>
        fst (Reconcile w sc s0) = Inr (Result_zero, None)
        \<and> \<not> Initialized (snd (Reconcile w sc s0)) \<and> \<not> Ready (snd (Reconcile w sc s0))
        \<and> Conditions (snd (Reconcile w sc s0)) GKEControlPlaneReadyCondition =
            Some (FalseCondition GKEControlPlaneErrorReason ConditionSeverityError (Literal []))
        \<and> events (snd (Reconcile w sc s0)) =
            events s0 @
            [Call_GetCluster (ClusterFullName sc),
             Mark GKEControlPlaneReadyCondition
               (FalseCondition GKEControlPlaneErrorReason ConditionSeverityError (Literal []))])
   \<and> (Status cluster \<notin> {Cluster_PROVISIONING, Cluster_RECONCILING, Cluster_STOPPING,
                          Cluster_ERROR, Cluster_DEGRADED, Cluster_RUNNING} \<longrightarrow>
        fst (Reconcile w sc s0) =
          Inr (Result_zero, Some (NewErrUnexpectedClusterStatus (Status cluster)))
        \<and> events (snd (Reconcile w sc s0)) = events s0 @ [Call_GetCluster (ClusterFullName sc)])"
  unfolding Reconcile_observed [OF assms]
  by (cases "Status cluster") (simp_all add: Reconcile_found_def mark_defs)

theorem C3_lifecycle_dispatch_witness:
  "fst (Reconcile (ex_collaborators\<lparr>GetCluster := (\<lambda>name. Inr (ex_cluster\<lparr>Status := Cluster_PROVISIONING\<rparr>))\<rparr>) ex_scope ex_status)
     = Inr (\<lparr>Requeue = False, RequeueAfter = 10000000000\<rparr>, None)
   \<and> fst (Reconcile (ex_collaborators\<lparr>GetCluster := (\<lambda>name. Inr (ex_cluster\<lparr>Status := Cluster_RECONCILING\<rparr>))\<rparr>) ex_scope ex_status)
     = Inr (\<lparr>Requeue = False, RequeueAfter = 10000000000\<rparr>, None)
   \<and> fst (Reconcile (ex_collaborators\<lparr>GetCluster := (\<lambda>name. Inr (ex_cluster\<lparr>Status := Cluster_STOPPING\<rparr>))\<rparr>) ex_scope ex_status)
     = Inr (\<lparr>Requeue = False, RequeueAfter = 10000000000\<rparr>, None)
   \<and> fst (Reconcile (ex_collaborators\<lparr>GetCluster := (\<lambda>name. Inr (ex_cluster\<lparr>Status := Cluster_DEGRADED\<rparr>))\<rparr>) ex_scope ex_status)
     = Inr (\<lparr>Requeue = False, RequeueAfter = 0\<rparr>, None)
   \<and> fst (Reconcile (ex_collaborators\<lparr>GetCluster := (\<lambda>name. Inr (ex_cluster\<lparr>Status := Cluster_Status_unnamed 7\<rparr>))\<rparr>) ex_scope ex_status)
     = Inr (\<lparr>Requeue = False, RequeueAfter = 0\<rparr>, Some (ErrUnexpectedClusterStatus (Cluster_Status_unnamed 7)))"
  using
    C3_lifecycle_dispatch [of "ex_collaborators\<lparr>GetCluster := (\<lambda>name. Inr (ex_cluster\<lparr>Status := Cluster_PROVISIONING\<rparr>))\<rparr>" ex_scope "ex_cluster\<lparr>Status := Cluster_PROVISIONING\<rparr>" ex_status]
    C3_lifecycle_dispatch [of "ex_collaborators\<lparr>GetCluster := (\<lambda>name. Inr (ex_cluster\<lparr>Status := Cluster_RECONCILING\<rparr>))\<rparr>" ex_scope "ex_cluster\<lparr>Status := Cluster_RECONCILING\<rparr>" ex_status]
    C3_lifecycle_dispatch [of "ex_collaborators\<lparr>GetCluster := (\<lambda>name. Inr (ex_cluster\<lparr>Status := Cluster_STOPPING\<rparr>))\<rparr>" ex_scope "ex_cluster\<lparr>Status := Cluster_STOPPING\<rparr>" ex_status]
    C3_lifecycle_dispatch [of "ex_collaborators\<lparr>GetCluster := (\<lambda>name. Inr (ex_cluster\<lparr>Status := Cluster_DEGRADED\<rparr>))\<rparr>" ex_scope "ex_cluster\<lparr>Status := Cluster_DEGRADED\<rparr>" ex_status]
    C3_lifecycle_dispatch [of "ex_collaborators\<lparr>GetCluster := (\<lambda>name. Inr (ex_cluster\<lparr>Status := Cluster_Status_unnamed 7\<rparr>))\<rparr>" ex_scope "ex_cluster\<lparr>Status := Cluster_Status_unnamed 7\<rparr>" ex_status]
  by (simp add: ex_defs NewErrUnexpectedClusterStatus_def)

section \<open>The create path\<close>

text \<open>
  C5. When the cluster is not found and the node pools were listed without error: with
  autopilot and at least one node pool the pass returns the error
  \<^verbatim>\<open>ErrAutopilotClusterMachinePoolsNotAllowed\<close> after three condition writes and no call
  but the lookup; without autopilot and with no node pool it returns a requeue after the retry
  interval and no error, again with no call but the lookup; in every other case it goes on
  with \<^verbatim>\<open>createCluster\<close> and what follows it.
\<close>

theorem C5_pool_count_preflight:
  assumes "GetCluster w (ClusterFullName sc) = Inl err"
    and "errors_As_APIError err = Some NotFound"
    and "GetAllNodePools sc = (nodePools, machinePools, None)"
  shows
    "(IsAutopilotCluster sc \<and> length nodePools > 0 \<longrightarrow>
        fst (Reconcile w sc s0) = Inr (Result_zero, Some ErrAutopilotClusterMachinePoolsNotAllowed)
        \<and> events (snd (Reconcile w sc s0)) =
            events s0 @
            [Call_GetCluster (ClusterFullName sc),
             Mark ReadyCondition
               (FalseCondition GKEControlPlaneRequiresAtLeastOneNodePoolReason ConditionSeverityInfo (Literal [])),
             Mark GKEControlPlaneReadyCondition
               (FalseCondition GKEControlPlaneRequiresAtLeastOneNodePoolReason ConditionSeverityInfo (Literal [])),
             Mark GKEControlPlaneCreatingCondition
               (FalseCondition GKEControlPlaneRequiresAtLeastOneNodePoolReason ConditionSeverityInfo (Literal []))])
   \<and> (\<not> IsAutopilotCluster sc \<and> length nodePools = 0 \<longrightarrow>
        fst (Reconcile w sc s0) = Inr (Result_zero\<lparr>RequeueAfter := DefaultRetryTime w\<rparr>, None)
        \<and> events (snd (Reconcile w sc s0)) =
            events s0 @
            [Call_GetCluster (ClusterFullName sc),
             Mark ReadyCondition
               (FalseCondition GKEControlPlaneRequiresAtLeastOneNodePoolReason ConditionSeverityInfo (Literal [])),
             Mark GKEControlPlaneReadyCondition
               (FalseCondition GKEControlPlaneRequiresAtLeastOneNodePoolReason ConditionSeverityInfo (Literal [])),
             Mark GKEControlPlaneCreatingCondition
               (FalseCondition GKEControlPlaneRequiresAtLeastOneNodePoolReason ConditionSeverityInfo (Literal []))])
   \<and> (\<not> (IsAutopilotCluster sc \<and> length nodePools > 0)
        \<and> \<not> (\<not> IsAutopilotCluster sc \<and> length nodePools = 0) \<longrightarrow>
        Reconcile w sc s0 =
          Reconcile_create w sc
            ((call (Call_GetCluster (ClusterFullName sc)) s0)\<lparr>Initialized := False, Ready := False\<rparr>))"
  using assms(3)
  by (auto simp: Reconcile_absent [OF assms(1,2)] Reconcile_notFound_def mark_defs Let_def)

theorem C5_pool_count_preflight_witness:
  "fst (Reconcile ex_collaborators
          (ex_scope\<lparr>IsAutopilotCluster := True,
                    GetAllNodePools := ([ex_nodePool], [ex_machinePool], None)\<rparr>) ex_status)
     = Inr (\<lparr>Requeue = False, RequeueAfter = 0\<rparr>, Some ErrAutopilotClusterMachinePoolsNotAllowed)
   \<and> \<not> list_ex is_Call_CreateCluster
        (events (snd (Reconcile ex_collaborators
          (ex_scope\<lparr>IsAutopilotCluster := True,
                    GetAllNodePools := ([ex_nodePool], [ex_machinePool], None)\<rparr>) ex_status)))
   \<and> fst (Reconcile ex_collaborators ex_scope ex_status)
     = Inr (\<lparr>Requeue = False, RequeueAfter = 10000000000\<rparr>, None)
   \<and> \<not> list_ex is_Call_CreateCluster
        (events (snd (Reconcile ex_collaborators ex_scope ex_status)))
   \<and> fst (Reconcile ex_collaborators
          (ex_scope\<lparr>GetAllNodePools := ([ex_nodePool], [ex_machinePool], None)\<rparr>) ex_status)
     = Inr (\<lparr>Requeue = False, RequeueAfter = 10000000000\<rparr>, None)
   \<and> list_ex is_Call_CreateCluster
        (events (snd (Reconcile ex_collaborators
          (ex_scope\<lparr>GetAllNodePools := ([ex_nodePool], [ex_machinePool], None)\<rparr>) ex_status)))"
  using
    C5_pool_count_preflight
      [of ex_collaborators
          "ex_scope\<lparr>IsAutopilotCluster := True,
                    GetAllNodePools := ([ex_nodePool], [ex_machinePool], None)\<rparr>"
          "APIError NotFound ''not found''" "[ex_nodePool]" "[ex_machinePool]" ex_status]
    C5_pool_count_preflight
      [of ex_collaborators ex_scope "APIError NotFound ''not found''" "[]" "[]" ex_status]
    C5_pool_count_preflight
      [of ex_collaborators
          "ex_scope\<lparr>GetAllNodePools := ([ex_nodePool], [ex_machinePool], None)\<rparr>"
          "APIError NotFound ''not found''" "[ex_nodePool]" "[ex_machinePool]" ex_status]
  by (simp add: ex_defs run_defs mark_defs)

section \<open>A running cluster with nothing to update\<close>

text \<open>
  The diff step returns the flag false only when the desired version is set and is neither a
  prefix of the observed version nor equal to it: the master-version block raises the flag
  in every other case, or panics.
\<close>

lemma checkDiffAndPrepareUpdate_flag_false:
  assumes "checkDiffAndPrepareUpdate w sc existingCluster = Inr (False, req)"
  shows "\<exists>v. Spec_ControlPlaneVersion sc = Some v
           \<and> \<not> strings_HasPrefix (CurrentMasterVersion existingCluster) v
           \<and> v \<noteq> CurrentMasterVersion existingCluster"
proof -
  from assms obtain acc1 acc2 where
    a1: "diffReleaseChannel sc existingCluster (False, ClusterUpdate_zero) = Inr acc1"
    and a2: "diffMasterVersion sc existingCluster acc1 = Inr acc2"
    and a3: "\<exists>u. diffMasterAuthorizedNetworksConfig w sc existingCluster acc2 = Inr (False, u)"
    by (auto simp: checkDiffAndPrepareUpdate_def split: sum.splits prod.splits)
  from a3 have "fst acc2 = False"
    by (cases acc2) (auto simp: diffMasterAuthorizedNetworksConfig_eq split: sum.splits if_splits)
  with a2 show ?thesis
    by (cases acc1)
       (auto simp: diffMasterVersion_def hasDesiredVersion_def split: if_splits option.splits)
qed

text \<open>
  What the pass does when the observed cluster is running and the diff step returns the flag
  false: no update call is made; after the lookup the updating condition is written false
  with the updated reason, then the kubeconfig step runs, then the additional-kubeconfigs
  step; a failure of either ends the pass with its error. When both succeed the two ready
  conditions are written true and the creating condition false with the created reason, both
  flags are true and the pass returns the zero result and no error.
\<close>

lemma Reconcile_running_flag_false:
  assumes "GetCluster w (ClusterFullName sc) = Inr cluster"
    and "Status cluster = Cluster_RUNNING"
    and "checkDiffAndPrepareUpdate w sc cluster = Inr (False, req)"
  shows
    "(\<forall>e. reconcileKubeconfig w cluster = Some e \<longrightarrow>
        fst (Reconcile w sc s0) = Inr (Result_zero, Some e)
        \<and> events (snd (Reconcile w sc s0)) =
            events s0 @
            [Call_GetCluster (ClusterFullName sc),
             Mark GKEControlPlaneUpdatingCondition
               (FalseCondition GKEControlPlaneUpdatedReason ConditionSeverityInfo (Literal [])),
             Call_reconcileKubeconfig])
   \<and> (\<forall>e. reconcileKubeconfig w cluster = None
          \<and> reconcileAdditionalKubeconfigs w cluster = Some e \<longrightarrow>
        fst (Reconcile w sc s0) = Inr (Result_zero, Some e)
        \<and> events (snd (Reconcile w sc s0)) =
            events s0 @
            [Call_GetCluster (ClusterFullName sc),
             Mark GKEControlPlaneUpdatingCondition
               (FalseCondition GKEControlPlaneUpdatedReason ConditionSeverityInfo (Literal [])),
             Call_reconcileKubeconfig,
             Call_reconcileAdditionalKubeconfigs])
   \<and> (reconcileKubeconfig w cluster = None \<and> reconcileAdditionalKubeconfigs w cluster = None \<longrightarrow>
        fst (Reconcile w sc s0) = Inr (Result_zero, None)
        \<and> events (snd (Reconcile w sc s0)) =
            events s0 @
            [Call_GetCluster (ClusterFullName sc),
             Mark GKEControlPlaneUpdatingCondition
               (FalseCondition GKEControlPlaneUpdatedReason ConditionSeverityInfo (Literal [])),
             Call_reconcileKubeconfig,
             Call_reconcileAdditionalKubeconfigs,
             Mark ReadyCondition TrueCondition,
             Mark GKEControlPlaneReadyCondition TrueCondition,
             Mark GKEControlPlaneCreatingCondition
               (FalseCondition GKEControlPlaneCreatedReason ConditionSeverityInfo (Literal []))]
        \<and> Conditions (snd (Reconcile w sc s0)) GKEControlPlaneUpdatingCondition =
            Some (FalseCondition GKEControlPlaneUpdatedReason ConditionSeverityInfo (Literal []))
        \<and> Conditions (snd (Reconcile w sc s0)) ReadyCondition = Some TrueCondition
        \<and> Conditions (snd (Reconcile w sc s0)) GKEControlPlaneReadyCondition = Some TrueCondition
        \<and> Conditions (snd (Reconcile w sc s0)) GKEControlPlaneCreatingCondition =
            Some (FalseCondition GKEControlPlaneCreatedReason ConditionSeverityInfo (Literal []))
        \<and> Initialized (snd (Reconcile w sc s0)) \<and> Ready (snd (Reconcile w sc s0)))"
  using assms(2,3)
  by (simp add: Reconcile_observed [OF assms(1)] Reconcile_found_def Reconcile_running_def mark_defs)

text \<open>
  C6. The claim: on a running cluster with no difference in any of the three field groups,
  no update call is made, the updating condition is written false with the updated reason,
  the two kubeconfig steps run in order and the pass ends ready. On the sample input nothing
  differs (same channel, desired version 1.24 satisfied by the observed 1.24.14-gke.2700,
  authorized networks disabled on both sides), yet the pass sends an update call carrying
  master version 1.24, writes the updating condition true and runs neither kubeconfig step;
  with the desired version unset, which also counts as satisfied, the pass panics right
  after the lookup.
\<close>

theorem C6_no_diff_sends_update:
  "fst (Reconcile (ex_collaborators\<lparr>GetCluster := (\<lambda>name. Inr ex_cluster)\<rparr>) ex_scope ex_status)
     = Inr (\<lparr>Requeue = False, RequeueAfter = 0\<rparr>, None)
   \<and> events (snd (Reconcile (ex_collaborators\<lparr>GetCluster := (\<lambda>name. Inr ex_cluster)\<rparr>)
                    ex_scope ex_status))
     = [Call_GetCluster ''projects/p/locations/l/clusters/c1'',
        Call_UpdateCluster
          \<lparr>Update_Name = ''projects/p/locations/l/clusters/c1'',
           Update = ClusterUpdate_zero\<lparr>DesiredMasterVersion := ''1.24''\<rparr>\<rparr>,
        Mark GKEControlPlaneUpdatingCondition TrueCondition]
   \<and> fst (Reconcile (ex_collaborators\<lparr>GetCluster := (\<lambda>name. Inr ex_cluster)\<rparr>)
            (ex_scope\<lparr>Spec_ControlPlaneVersion := None\<rparr>) ex_status)
     = Inl NilPointerDereference
   \<and> events (snd (Reconcile (ex_collaborators\<lparr>GetCluster := (\<lambda>name. Inr ex_cluster)\<rparr>)
                    (ex_scope\<lparr>Spec_ControlPlaneVersion := None\<rparr>) ex_status))
     = [Call_GetCluster ''projects/p/locations/l/clusters/c1'']"
  by (simp add: run_defs diff_defs mark_defs ex_defs)

section \<open>Condition writes on the error returns\<close>

lemma Reconcile_create_error:
  assumes "fst (Reconcile_create w sc s) = Inr (res, Some e)"
  shows "\<exists>evs. events (snd (Reconcile_create w sc s)) = events s @ evs
           \<and> Mark ReadyCondition (FalseCondition GKEControlPlaneReconciliationFailedReason
                 ConditionSeverityError (Error_of e)) \<in> set evs
           \<and> Conditions (snd (Reconcile_create w sc s)) ReadyCondition =
               Some (FalseCondition GKEControlPlaneReconciliationFailedReason
                 ConditionSeverityError (Error_of e))"
proof -
  obtain r s1 where cc: "createCluster w sc s = (r, s1)" by (cases "createCluster w sc s")
  obtain evs where s1: "s1 = s\<lparr>events := events s @ evs\<rparr>"
    using createCluster_status [of w sc s] cc by auto
  from assms cc have r: "r = Inr (Some e)"
    by (auto simp: Reconcile_create_def Let_def split: sum.splits option.splits)
  show ?thesis
    unfolding Reconcile_create_def cc r s1
    by (simp add: mark_defs)
qed

text \<open>
  C7. The claim: every pass of Reconcile or Delete that returns an error has written a
  condition recording the failure before it returns. Three passes that return an error after
  the lookup alone, with no condition write: Delete when the lookup fails, Reconcile on a
  cluster whose status is none of the named ones, and Reconcile when the update call fails
  (the events are then the lookup and the update call).
\<close>

theorem C7_error_without_condition_write:
  "fst (Delete (ex_collaborators\<lparr>GetCluster := (\<lambda>name. Inl (APIError Unavailable ''unavailable''))\<rparr>)
          ex_scope ex_status)
     = Inr (\<lparr>Requeue = False, RequeueAfter = 0\<rparr>, Some (APIError Unavailable ''unavailable''))
   \<and> events (snd (Delete (ex_collaborators\<lparr>GetCluster := (\<lambda>name. Inl (APIError Unavailable ''unavailable''))\<rparr>)
          ex_scope ex_status))
     = [Call_GetCluster ''projects/p/locations/l/clusters/c1'']
   \<and> fst (Reconcile (ex_collaborators\<lparr>GetCluster := (\<lambda>name. Inr (ex_cluster\<lparr>Status := Cluster_STATUS_UNSPECIFIED\<rparr>))\<rparr>)
          ex_scope ex_status)
     = Inr (\<lparr>Requeue = False, RequeueAfter = 0\<rparr>,
            Some (ErrUnexpectedClusterStatus Cluster_STATUS_UNSPECIFIED))
   \<and> events (snd (Reconcile (ex_collaborators\<lparr>GetCluster := (\<lambda>name. Inr (ex_cluster\<lparr>Status := Cluster_STATUS_UNSPECIFIED\<rparr>))\<rparr>)
          ex_scope ex_status))
     = [Call_GetCluster ''projects/p/locations/l/clusters/c1'']
   \<and> fst (Reconcile (ex_collaborators\<lparr>GetCluster := (\<lambda>name. Inr ex_cluster),
                        UpdateCluster := (\<lambda>req. Some (APIError Internal ''internal''))\<rparr>)
          (ex_scope\<lparr>Spec_ReleaseChannel := Some Rapid,
                    Spec_ControlPlaneVersion := Some ''1.27''\<rparr>) ex_status)
     = Inr (\<lparr>Requeue = False, RequeueAfter = 0\<rparr>, Some (APIError Internal ''internal''))
   \<and> events (snd (Reconcile (ex_collaborators\<lparr>GetCluster := (\<lambda>name. Inr ex_cluster),
                        UpdateCluster := (\<lambda>req. Some (APIError Internal ''internal''))\<rparr>)
          (ex_scope\<lparr>Spec_ReleaseChannel := Some Rapid,
                    Spec_ControlPlaneVersion := Some ''1.27''\<rparr>) ex_status))
     = [Call_GetCluster ''projects/p/locations/l/clusters/c1'',
        Call_UpdateCluster
          \<lparr>Update_Name = ''projects/p/locations/l/clusters/c1'',
           Update = ClusterUpdate_zero
             \<lparr>DesiredReleaseChannel := Some \<lparr>Channel = ReleaseChannel_RAPID\<rparr>\<rparr>\<rparr>]"
  by (simp add: run_defs diff_defs call_def ex_defs)

text \<open>
  C7, as the code has it. A pass of Reconcile that returns an error when the lookup did not
  return a cluster (the lookup failed, the node pools could not be listed, autopilot was
  asked for with node pools declared, or the create step failed) has written the ready
  condition false in this pass, with the reconciliation-failed reason and the message
  \<^verbatim>\<open>fmt.Sprintf\<close> makes of the error's text used as a format or, for the autopilot error,
  with the reason of the pool-count check; the write is still in force at the return. A pass
  of Delete that returns an error after the lookup returned a cluster ends with the write of
  the deleting condition false, with the reconciliation-failed reason and the message
  \<^verbatim>\<open>fmt.Sprintf\<close> makes of the error's text used as a format. That message is the error's
  text when the text has no \<^verbatim>\<open>%\<close>.
\<close>

theorem C7_condition_written_before_error:
  "(\<forall>err. GetCluster w (ClusterFullName sc) = Inl err
        \<and> fst (Reconcile w sc s0) = Inr (res, Some e) \<longrightarrow>
      (\<exists>evs c. events (snd (Reconcile w sc s0)) = events s0 @ evs
          \<and> Mark ReadyCondition c \<in> set evs
          \<and> Conditions (snd (Reconcile w sc s0)) ReadyCondition = Some c
          \<and> \<not> Condition_Status c
          \<and> (Condition_Reason c = Some GKEControlPlaneReconciliationFailedReason
               \<and> Message c = fmt_Sprintf (Error_of e)
             \<or> Condition_Reason c = Some GKEControlPlaneRequiresAtLeastOneNodePoolReason
               \<and> e = ErrAutopilotClusterMachinePoolsNotAllowed)))
   \<and> (\<forall>cluster. GetCluster w (ClusterFullName sc) = Inr cluster
        \<and> fst (Delete w sc s0) = Inr (res, Some e) \<longrightarrow>
      (\<exists>evs. events (snd (Delete w sc s0)) =
          events s0 @ evs @
          [Mark GKEControlPlaneDeletingCondition
             (FalseCondition GKEControlPlaneReconciliationFailedReason
                ConditionSeverityError (Error_of e))])
      \<and> Conditions (snd (Delete w sc s0)) GKEControlPlaneDeletingCondition =
          Some (FalseCondition GKEControlPlaneReconciliationFailedReason
                ConditionSeverityError (Error_of e)))"
proof (intro conjI allI impI)
  fix err
  assume a: "GetCluster w (ClusterFullName sc) = Inl err \<and> fst (Reconcile w sc s0) = Inr (res, Some e)"
  let ?s = "call (Call_GetCluster (ClusterFullName sc)) s0"
  let ?P = "\<lambda>evs c. events (snd (Reconcile w sc s0)) = events s0 @ evs
          \<and> Mark ReadyCondition c \<in> set evs
          \<and> Conditions (snd (Reconcile w sc s0)) ReadyCondition = Some c
          \<and> \<not> Condition_Status c
          \<and> (Condition_Reason c = Some GKEControlPlaneReconciliationFailedReason
               \<and> Message c = fmt_Sprintf (Error_of e)
             \<or> Condition_Reason c = Some GKEControlPlaneRequiresAtLeastOneNodePoolReason
               \<and> e = ErrAutopilotClusterMachinePoolsNotAllowed)"
  show "\<exists>evs c. ?P evs c"
  proof (cases "errors_As_APIError err = Some NotFound")
    case False
    with a have "?P [Call_GetCluster (ClusterFullName sc),
                     Mark ReadyCondition (FalseCondition GKEControlPlaneReconciliationFailedReason
                        ConditionSeverityError (Error_of e))]
                    (FalseCondition GKEControlPlaneReconciliationFailedReason
                        ConditionSeverityError (Error_of e))"
      by (auto simp: Reconcile_def describeCluster_error mark_defs)
    then show ?thesis by blast
  next
    case True
    with a have R: "Reconcile w sc s0 = Reconcile_notFound w sc ?s"
      by (simp add: Reconcile_absent)
    obtain nps mps ge where g: "GetAllNodePools sc = (nps, mps, ge)"
      by (cases "GetAllNodePools sc")
    let ?s' = "?s\<lparr>Initialized := False, Ready := False\<rparr>"
    consider (listing) e' where "ge = Some e'"
      | (autopilot) "ge = None" "IsAutopilotCluster sc" "length nps > 0"
      | (nopools) "ge = None" "\<not> IsAutopilotCluster sc" "length nps = 0"
      | (create) "ge = None" "\<not> (IsAutopilotCluster sc \<and> length nps > 0)"
          "\<not> (\<not> IsAutopilotCluster sc \<and> length nps = 0)"
      by (cases ge) auto
    then show ?thesis
    proof cases
      case listing
      with a g R have "?P [Call_GetCluster (ClusterFullName sc),
                     Mark ReadyCondition (FalseCondition GKEControlPlaneReconciliationFailedReason
                        ConditionSeverityError (Error_of e)),
                     Mark GKEControlPlaneReadyCondition (FalseCondition GKEControlPlaneReconciliationFailedReason
                        ConditionSeverityError (Error_of e)),
                     Mark GKEControlPlaneCreatingCondition (FalseCondition GKEControlPlaneReconciliationFailedReason
                        ConditionSeverityError (Error_of e))]
                    (FalseCondition GKEControlPlaneReconciliationFailedReason
                        ConditionSeverityError (Error_of e))"
        by (auto simp: Reconcile_notFound_def mark_defs)
      then show ?thesis by blast
    next
      case autopilot
      with a g R have "?P [Call_GetCluster (ClusterFullName sc),
                     Mark ReadyCondition (FalseCondition GKEControlPlaneRequiresAtLeastOneNodePoolReason
                        ConditionSeverityInfo (Literal [])),
                     Mark GKEControlPlaneReadyCondition (FalseCondition GKEControlPlaneRequiresAtLeastOneNodePoolReason
                        ConditionSeverityInfo (Literal [])),
                     Mark GKEControlPlaneCreatingCondition (FalseCondition GKEControlPlaneRequiresAtLeastOneNodePoolReason
                        ConditionSeverityInfo (Literal []))]
                    (FalseCondition GKEControlPlaneRequiresAtLeastOneNodePoolReason
                        ConditionSeverityInfo (Literal []))"
        by (auto simp: Reconcile_notFound_def mark_defs)
      then show ?thesis by blast
    next
      case nopools
      with a g R have False
        by (auto simp: Reconcile_notFound_def mark_defs)
      then show ?thesis ..
    next
      case create
      with g have RC: "Reconcile_notFound w sc ?s = Reconcile_create w sc ?s'"
        by (simp add: Reconcile_notFound_create)
      with a R have "fst (Reconcile_create w sc ?s') = Inr (res, Some e)" by simp
      from Reconcile_create_error [OF this] obtain evs where
        evs: "events (snd (Reconcile_create w sc ?s')) = events ?s' @ evs"
          "Mark ReadyCondition (FalseCondition GKEControlPlaneReconciliationFailedReason
                 ConditionSeverityError (Error_of e)) \<in> set evs"
          "Conditions (snd (Reconcile_create w sc ?s')) ReadyCondition =
               Some (FalseCondition GKEControlPlaneReconciliationFailedReason
                 ConditionSeverityError (Error_of e))"
        by blast
      have "?P (Call_GetCluster (ClusterFullName sc) # evs)
               (FalseCondition GKEControlPlaneReconciliationFailedReason
                 ConditionSeverityError (Error_of e))"
        unfolding R RC using evs by (simp add: call_def FalseCondition_def)
      then show ?thesis by blast
    qed
  qed
next
  fix cluster
  assume a: "GetCluster w (ClusterFullName sc) = Inr cluster \<and> fst (Delete w sc s0) = Inr (res, Some e)"
  then have "events (snd (Delete w sc s0)) =
          events s0 @ [Call_GetCluster (ClusterFullName sc), Call_DeleteCluster (ClusterFullName sc)] @
          [Mark GKEControlPlaneDeletingCondition
             (FalseCondition GKEControlPlaneReconciliationFailedReason
                ConditionSeverityError (Error_of e))]"
    by (auto simp: Delete_observed mark_defs split: Cluster_Status.splits option.splits)
  then show "\<exists>evs. events (snd (Delete w sc s0)) =
          events s0 @ evs @
          [Mark GKEControlPlaneDeletingCondition
             (FalseCondition GKEControlPlaneReconciliationFailedReason
                ConditionSeverityError (Error_of e))]" by blast
next
  fix cluster
  assume a: "GetCluster w (ClusterFullName sc) = Inr cluster \<and> fst (Delete w sc s0) = Inr (res, Some e)"
  then show "Conditions (snd (Delete w sc s0)) GKEControlPlaneDeletingCondition =
          Some (FalseCondition GKEControlPlaneReconciliationFailedReason
                ConditionSeverityError (Error_of e))"
    by (auto simp: Delete_observed mark_defs split: Cluster_Status.splits option.splits)
qed

theorem C7_condition_written_before_error_witness:
  "GetCluster (ex_collaborators\<lparr>GetCluster := (\<lambda>name. Inl (APIError Unavailable ''unavailable''))\<rparr>)
      (ClusterFullName ex_scope) = Inl (APIError Unavailable ''unavailable'')
   \<and> fst (Reconcile (ex_collaborators\<lparr>GetCluster := (\<lambda>name. Inl (APIError Unavailable ''unavailable''))\<rparr>)
          ex_scope ex_status)
     = Inr (Result_zero, Some (APIError Unavailable ''unavailable''))
   \<and> (\<exists>evs c. events (snd (Reconcile (ex_collaborators\<lparr>GetCluster := (\<lambda>name. Inl (APIError Unavailable ''unavailable''))\<rparr>)
                    ex_scope ex_status)) = events ex_status @ evs
          \<and> Mark ReadyCondition c \<in> set evs \<and> \<not> Condition_Status c)
   \<and> fst (Delete (ex_collaborators\<lparr>GetCluster := (\<lambda>name. Inr ex_cluster),
                     DeleteCluster := (\<lambda>name. Some (APIError Internal ''internal''))\<rparr>)
          ex_scope ex_status)
     = Inr (Result_zero, Some (APIError Internal ''internal''))
   \<and> Conditions (snd (Delete (ex_collaborators\<lparr>GetCluster := (\<lambda>name. Inr ex_cluster),
                     DeleteCluster := (\<lambda>name. Some (APIError Internal ''internal''))\<rparr>)
          ex_scope ex_status)) GKEControlPlaneDeletingCondition
     = Some (FalseCondition GKEControlPlaneReconciliationFailedReason ConditionSeverityError
              (Error_of (APIError Internal ''internal'')))"
proof -
  let ?w1 = "ex_collaborators\<lparr>GetCluster := (\<lambda>name. Inl (APIError Unavailable ''unavailable''))\<rparr>"
  let ?w2 = "ex_collaborators\<lparr>GetCluster := (\<lambda>name. Inr ex_cluster),
                     DeleteCluster := (\<lambda>name. Some (APIError Internal ''internal''))\<rparr>"
  have r: "fst (Reconcile ?w1 ex_scope ex_status)
             = Inr (Result_zero, Some (APIError Unavailable ''unavailable''))"
    by (simp add: ex_defs run_defs mark_defs)
  have g1: "GetCluster ?w1 (ClusterFullName ex_scope) = Inl (APIError Unavailable ''unavailable'')"
    by (simp add: ex_defs)
  have d: "fst (Delete ?w2 ex_scope ex_status) = Inr (Result_zero, Some (APIError Internal ''internal''))"
    by (simp add: ex_defs run_defs mark_defs)
  have g2: "GetCluster ?w2 (ClusterFullName ex_scope) = Inr ex_cluster"
    by (simp add: ex_defs)
  from C7_condition_written_before_error
         [of ?w1 ex_scope ex_status Result_zero "APIError Unavailable ''unavailable''"] g1 r
  have rc: "\<exists>evs c. events (snd (Reconcile ?w1 ex_scope ex_status)) = events ex_status @ evs
          \<and> Mark ReadyCondition c \<in> set evs \<and> \<not> Condition_Status c"
    by blast
  from C7_condition_written_before_error
         [of ?w2 ex_scope ex_status Result_zero "APIError Internal ''internal''"] g2 d
  have dc: "Conditions (snd (Delete ?w2 ex_scope ex_status)) GKEControlPlaneDeletingCondition
     = Some (FalseCondition GKEControlPlaneReconciliationFailedReason ConditionSeverityError
              (Error_of (APIError Internal ''internal'')))"
    by blast
  from g1 r rc d dc show ?thesis by blast
qed

section \<open>What a waiting pass returns\<close>

text \<open>
  C8. The claim: a pass of Reconcile or Delete that ends waiting on an operation in flight
  returns a requeue after the retry interval, never the zero result. Delete on a cluster that
  is provisioning returns the zero result and no error, while the retry interval of the
  sample collaborators is ten seconds.
\<close>

theorem C8_delete_waits_without_requeue:
  "fst (Delete (ex_collaborators\<lparr>GetCluster := (\<lambda>name. Inr (ex_cluster\<lparr>Status := Cluster_PROVISIONING\<rparr>))\<rparr>)
          ex_scope ex_status)
     = Inr (\<lparr>Requeue = False, RequeueAfter = 0\<rparr>, None)
   \<and> fst (Delete (ex_collaborators\<lparr>GetCluster := (\<lambda>name. Inr (ex_cluster\<lparr>Status := Cluster_PROVISIONING\<rparr>))\<rparr>)
          ex_scope ex_status)
     \<noteq> Inr (Result_zero\<lparr>RequeueAfter := DefaultRetryTime ex_collaborators\<rparr>, None)
   \<and> DefaultRetryTime ex_collaborators = 10000000000"
  by (simp add: Delete_def describeCluster_def call_def ex_defs)

text \<open>
  C8, as the code has it. On a cluster that is provisioning, reconciling or stopping,
  Reconcile returns a requeue after the retry interval and Delete returns the zero result
  with no error. When the cluster is not found, the pool-count check passes and
  \<^verbatim>\<open>createCluster\<close> returns no error, Reconcile returns a requeue after the retry interval.
\<close>

theorem C8_wait_outcomes:
  "(\<forall>cluster. GetCluster w (ClusterFullName sc) = Inr cluster
       \<and> Status cluster \<in> {Cluster_PROVISIONING, Cluster_RECONCILING, Cluster_STOPPING} \<longrightarrow>
       fst (Reconcile w sc s0) = Inr (Result_zero\<lparr>RequeueAfter := DefaultRetryTime w\<rparr>, None)
       \<and> fst (Delete w sc s0) = Inr (Result_zero, None))
   \<and> (\<forall>err nodePools machinePools.
         GetCluster w (ClusterFullName sc) = Inl err \<and> errors_As_APIError err = Some NotFound
       \<and> GetAllNodePools sc = (nodePools, machinePools, None)
       \<and> (IsAutopilotCluster sc \<longleftrightarrow> length nodePools = 0)
       \<and> fst (createCluster w sc s0) = Inr None \<longrightarrow>
       fst (Reconcile w sc s0) = Inr (Result_zero\<lparr>RequeueAfter := DefaultRetryTime w\<rparr>, None))"
proof (rule conjI; intro allI impI)
  fix cluster
  assume a: "GetCluster w (ClusterFullName sc) = Inr cluster
       \<and> Status cluster \<in> {Cluster_PROVISIONING, Cluster_RECONCILING, Cluster_STOPPING}"
  then show "fst (Reconcile w sc s0) = Inr (Result_zero\<lparr>RequeueAfter := DefaultRetryTime w\<rparr>, None)
       \<and> fst (Delete w sc s0) = Inr (Result_zero, None)"
    by (auto simp: Reconcile_observed Reconcile_found_def Delete_observed)
next
  fix err nodePools machinePools
  assume a: "GetCluster w (ClusterFullName sc) = Inl err \<and> errors_As_APIError err = Some NotFound
       \<and> GetAllNodePools sc = (nodePools, machinePools, None)
       \<and> (IsAutopilotCluster sc \<longleftrightarrow> length nodePools = 0)
       \<and> fst (createCluster w sc s0) = Inr None"
  let ?s = "(call (Call_GetCluster (ClusterFullName sc)) s0)\<lparr>Initialized := False, Ready := False\<rparr>"
  from a have R: "Reconcile w sc s0 = Reconcile_create w sc ?s"
    by (auto simp: Reconcile_absent Reconcile_notFound_create)
  from a have "fst (createCluster w sc ?s) = Inr None"
    using fst_createCluster [of w sc ?s s0] by simp
  then show "fst (Reconcile w sc s0) = Inr (Result_zero\<lparr>RequeueAfter := DefaultRetryTime w\<rparr>, None)"
    unfolding R by (cases "createCluster w sc ?s") (simp add: Reconcile_create_def)
qed

theorem C8_wait_outcomes_witness:
  "fst (Reconcile (ex_collaborators\<lparr>GetCluster := (\<lambda>name. Inr (ex_cluster\<lparr>Status := Cluster_STOPPING\<rparr>))\<rparr>)
          ex_scope ex_status)
     = Inr (\<lparr>Requeue = False, RequeueAfter = 10000000000\<rparr>, None)
   \<and> fst (Delete (ex_collaborators\<lparr>GetCluster := (\<lambda>name. Inr (ex_cluster\<lparr>Status := Cluster_STOPPING\<rparr>))\<rparr>)
          ex_scope ex_status)
     = Inr (\<lparr>Requeue = False, RequeueAfter = 0\<rparr>, None)
   \<and> fst (createCluster ex_collaborators
          (ex_scope\<lparr>GetAllNodePools := ([ex_nodePool], [ex_machinePool], None)\<rparr>) ex_status)
     = Inr None
   \<and> fst (Reconcile ex_collaborators
          (ex_scope\<lparr>GetAllNodePools := ([ex_nodePool], [ex_machinePool], None)\<rparr>) ex_status)
     = Inr (\<lparr>Requeue = False, RequeueAfter = 10000000000\<rparr>, None)"
  using
    C8_wait_outcomes
      [of "ex_collaborators\<lparr>GetCluster := (\<lambda>name. Inr (ex_cluster\<lparr>Status := Cluster_STOPPING\<rparr>))\<rparr>"
          ex_scope ex_status]
    C8_wait_outcomes
      [of ex_collaborators
          "ex_scope\<lparr>GetAllNodePools := ([ex_nodePool], [ex_machinePool], None)\<rparr>" ex_status]
  by (simp add: ex_defs createCluster_def ConvertToSdkNodePools_def
      ConvertToSdkNodePools_from.simps ConvertToSdkNodePool_def int32_quo_def
      convertToSdkNodePoolAutoscaling_def convertToSdkNodeManagement_def
      createAddonsConfig_def createNetworkConfig_def createWorkloadIdentityConfig_def)

section \<open>Delete while the cluster is stopping\<close>

text \<open>
  C9. When the lookup returns a cluster that is stopping, Delete makes no call but the
  lookup, writes the control-plane ready condition false with the deleting reason, then the
  deleting condition true, and returns the zero result and no error.
\<close>

theorem C9_delete_while_stopping:
  assumes "GetCluster w (ClusterFullName sc) = Inr cluster"
    and "Status cluster = Cluster_STOPPING"
  shows "fst (Delete w sc s0) = Inr (Result_zero, None)
    \<and> events (snd (Delete w sc s0)) =
        events s0 @
        [Call_GetCluster (ClusterFullName sc),
         Mark GKEControlPlaneReadyCondition
           (FalseCondition GKEControlPlaneDeletingReason ConditionSeverityInfo (Literal [])),
         Mark GKEControlPlaneDeletingCondition TrueCondition]
    \<and> Conditions (snd (Delete w sc s0)) GKEControlPlaneDeletingCondition = Some TrueCondition
    \<and> Conditions (snd (Delete w sc s0)) GKEControlPlaneReadyCondition =
        Some (FalseCondition GKEControlPlaneDeletingReason ConditionSeverityInfo (Literal []))"
  using assms by (simp add: Delete_observed mark_defs)

theorem C9_delete_while_stopping_witness:
  "fst (Delete (ex_collaborators\<lparr>GetCluster := (\<lambda>name. Inr (ex_cluster\<lparr>Status := Cluster_STOPPING\<rparr>))\<rparr>)
          ex_scope ex_status) = Inr (\<lparr>Requeue = False, RequeueAfter = 0\<rparr>, None)
   \<and> events (snd (Delete (ex_collaborators\<lparr>GetCluster := (\<lambda>name. Inr (ex_cluster\<lparr>Status := Cluster_STOPPING\<rparr>))\<rparr>)
          ex_scope ex_status)) =
        [Call_GetCluster ''projects/p/locations/l/clusters/c1'',
         Mark GKEControlPlaneReadyCondition
           (FalseCondition GKEControlPlaneDeletingReason ConditionSeverityInfo (Literal [])),
         Mark GKEControlPlaneDeletingCondition TrueCondition]"
  using C9_delete_while_stopping [of "ex_collaborators\<lparr>GetCluster := (\<lambda>name. Inr (ex_cluster\<lparr>Status := Cluster_STOPPING\<rparr>))\<rparr>"
          ex_scope "ex_cluster\<lparr>Status := Cluster_STOPPING\<rparr>" ex_status]
  by (simp add: ex_defs)

section \<open>The conversion of node pools\<close>

lemma ConvertToSdkNodePool_returns_iff:
  "(\<exists>p. ConvertToSdkNodePool w nodePool machinePool regional = Inr p) \<longleftrightarrow>
     Replicas machinePool \<noteq> None
     \<and> (\<forall>v. Template_Version machinePool = Some v \<longrightarrow> NormalizeMachineVersion w (Some v) \<noteq> None)"
  by (auto simp: ConvertToSdkNodePool_def Let_def split: option.splits)

lemma ConvertToSdkNodePools_from_Inr_iff:
  "ConvertToSdkNodePools_from w nodePools machinePools regional i acc = Inr res \<longleftrightarrow>
     (\<exists>ps. res = acc @ ps \<and> i + length ps = max i (length nodePools)
        \<and> (\<forall>j<length ps. i + j < length machinePools
              \<and> ConvertToSdkNodePool w (nodePools ! (i + j)) (machinePools ! (i + j)) regional
                  = Inr (ps ! j)))"
proof (induction w nodePools machinePools regional i acc rule: ConvertToSdkNodePools_from.induct)
  case (1 w nodePools machinePools regional i acc)
  let ?conv = "\<lambda>k. ConvertToSdkNodePool w (nodePools ! k) (machinePools ! k) regional"
  let ?R = "\<lambda>i acc ps. res = acc @ ps \<and> i + length ps = max i (length nodePools)
        \<and> (\<forall>j<length ps. i + j < length machinePools \<and> ?conv (i + j) = Inr (ps ! j))"
  show ?case
  proof (cases "i < length nodePools")
    case False
    then show ?thesis
      by (subst ConvertToSdkNodePools_from.simps) (auto simp: max_def)
  next
    case inN: True
    show ?thesis
    proof (cases "i < length machinePools")
      case False
      have "\<not> (\<exists>ps. ?R i acc ps)"
      proof
        assume "\<exists>ps. ?R i acc ps"
        then obtain ps where ps: "?R i acc ps" by blast
        with inN have "0 < length ps" by (cases ps) (auto simp: max_def)
        with ps have "i + 0 < length machinePools" by blast
        with False show False by simp
      qed
      with inN False show ?thesis
        by (subst ConvertToSdkNodePools_from.simps) simp
    next
      case inM: True
      show ?thesis
      proof (cases "?conv i")
        case (Inl f)
        have "\<not> (\<exists>ps. ?R i acc ps)"
        proof
          assume "\<exists>ps. ?R i acc ps"
          then obtain ps where ps: "?R i acc ps" by blast
          with inN have "0 < length ps" by (cases ps) (auto simp: max_def)
          with ps have "?conv (i + 0) = Inr (ps ! 0)" by blast
          with Inl show False by simp
        qed
        with inN inM Inl show ?thesis
          by (subst ConvertToSdkNodePools_from.simps) simp
      next
        case (Inr p)
        have step: "ConvertToSdkNodePools_from w nodePools machinePools regional i acc =
                    ConvertToSdkNodePools_from w nodePools machinePools regional (Suc i) (acc @ [p])"
          using inN inM Inr by (subst ConvertToSdkNodePools_from.simps) simp
        have IH: "ConvertToSdkNodePools_from w nodePools machinePools regional (Suc i) (acc @ [p]) = Inr res
                  \<longleftrightarrow> (\<exists>ps. ?R (Suc i) (acc @ [p]) ps)"
          using "1.IH" [OF inN inM Inr] .
        have "(\<exists>ps. ?R (Suc i) (acc @ [p]) ps) \<longleftrightarrow> (\<exists>ps. ?R i acc ps)"
        proof
          assume "\<exists>ps. ?R (Suc i) (acc @ [p]) ps"
          then obtain ps where ps: "?R (Suc i) (acc @ [p]) ps" by blast
          have "?R i acc (p # ps)"
          proof (intro conjI allI impI)
            show "res = acc @ p # ps" using ps by simp
            show "i + length (p # ps) = max i (length nodePools)" using ps inN by (simp add: max_def)
          next
            fix j assume j: "j < length (p # ps)"
            show "i + j < length machinePools"
              using ps j inM by (cases j) auto
            show "?conv (i + j) = Inr ((p # ps) ! j)"
              using ps j Inr by (cases j) auto
          qed
          then show "\<exists>ps. ?R i acc ps" by blast
        next
          assume "\<exists>ps. ?R i acc ps"
          then obtain ps where ps: "?R i acc ps" by blast
          with inN have "0 < length ps" by (cases ps) (auto simp: max_def)
          then obtain q qs where qs: "ps = q # qs" by (cases ps) auto
          from ps qs have "?conv (i + 0) = Inr (ps ! 0)" by blast
          with Inr qs have q: "q = p" by simp
          have "?R (Suc i) (acc @ [p]) qs"
          proof (intro conjI allI impI)
            show "res = (acc @ [p]) @ qs" using ps qs q by simp
            show "Suc i + length qs = max (Suc i) (length nodePools)"
              using ps qs inN by (simp add: max_def)
          next
            fix j assume j: "j < length qs"
            then have "Suc j < length ps" using qs by simp
            with ps have "i + Suc j < length machinePools \<and> ?conv (i + Suc j) = Inr (ps ! Suc j)"
              by blast
            then show "Suc i + j < length machinePools" "?conv (Suc i + j) = Inr (qs ! j)"
              using qs by simp_all
          qed
          then show "\<exists>ps. ?R (Suc i) (acc @ [p]) ps" by blast
        qed
        with step IH show ?thesis by simp
      qed
    qed
  qed
qed

lemma ConvertToSdkNodePools_Inr_iff:
  "ConvertToSdkNodePools w nodePools machinePools regional = Inr res \<longleftrightarrow>
     length res = length nodePools
     \<and> (\<forall>i<length nodePools. i < length machinePools
           \<and> ConvertToSdkNodePool w (nodePools ! i) (machinePools ! i) regional = Inr (res ! i))"
  by (auto simp: ConvertToSdkNodePools_def ConvertToSdkNodePools_from_Inr_iff)

text \<open>
  C10. \<^verbatim>\<open>ConvertToSdkNodePools\<close> returns only if there are at least as many machine pools as
  node pools and each machine pool paired with a node pool has its replicas set. Under that
  condition, and when \<^verbatim>\<open>NormalizeMachineVersion\<close> returns a non-nil pointer for the versions
  that are set, it returns a list with one entry per node pool, the entry at index \<open>i\<close> being
  the conversion of node pool \<open>i\<close> with machine pool \<open>i\<close>.
\<close>

theorem C10_node_pool_conversion:
  "((\<exists>res. ConvertToSdkNodePools w nodePools machinePools regional = Inr res) \<longrightarrow>
      length nodePools \<le> length machinePools
      \<and> (\<forall>i<length nodePools. Replicas (machinePools ! i) \<noteq> None))
   \<and> (length nodePools \<le> length machinePools
       \<and> (\<forall>i<length nodePools. Replicas (machinePools ! i) \<noteq> None
             \<and> (\<forall>v. Template_Version (machinePools ! i) = Some v \<longrightarrow>
                    NormalizeMachineVersion w (Some v) \<noteq> None)) \<longrightarrow>
      (\<exists>res. ConvertToSdkNodePools w nodePools machinePools regional = Inr res
          \<and> length res = length nodePools
          \<and> (\<forall>i<length nodePools.
                ConvertToSdkNodePool w (nodePools ! i) (machinePools ! i) regional = Inr (res ! i))))"
proof (rule conjI; rule impI)
  assume "\<exists>res. ConvertToSdkNodePools w nodePools machinePools regional = Inr res"
  then obtain res where res: "ConvertToSdkNodePools w nodePools machinePools regional = Inr res" ..
  then have all: "\<forall>i<length nodePools. i < length machinePools
           \<and> ConvertToSdkNodePool w (nodePools ! i) (machinePools ! i) regional = Inr (res ! i)"
    by (simp add: ConvertToSdkNodePools_Inr_iff)
  have "length nodePools \<le> length machinePools"
  proof (cases nodePools)
    case Nil
    then show ?thesis by simp
  next
    case (Cons a list)
    then have "length nodePools - 1 < length nodePools" by simp
    with all have "length nodePools - 1 < length machinePools" by blast
    then show ?thesis by simp
  qed
  moreover have "\<forall>i<length nodePools. Replicas (machinePools ! i) \<noteq> None"
  proof (intro allI impI)
    fix i assume "i < length nodePools"
    with all have "\<exists>p. ConvertToSdkNodePool w (nodePools ! i) (machinePools ! i) regional = Inr p"
      by blast
    then show "Replicas (machinePools ! i) \<noteq> None"
      by (simp add: ConvertToSdkNodePool_returns_iff)
  qed
  ultimately show "length nodePools \<le> length machinePools
      \<and> (\<forall>i<length nodePools. Replicas (machinePools ! i) \<noteq> None)" ..
next
  assume pre: "length nodePools \<le> length machinePools
       \<and> (\<forall>i<length nodePools. Replicas (machinePools ! i) \<noteq> None
             \<and> (\<forall>v. Template_Version (machinePools ! i) = Some v \<longrightarrow>
                    NormalizeMachineVersion w (Some v) \<noteq> None))"
  let ?conv = "\<lambda>i. ConvertToSdkNodePool w (nodePools ! i) (machinePools ! i) regional"
  let ?res = "map (\<lambda>i. projr (?conv i)) [0..<length nodePools]"
  have each: "?conv i = Inr (?res ! i)" if "i < length nodePools" for i
  proof -
    from pre that have "\<exists>p. ?conv i = Inr p"
      by (simp add: ConvertToSdkNodePool_returns_iff)
    with that show ?thesis by auto
  qed
  have "ConvertToSdkNodePools w nodePools machinePools regional = Inr ?res"
    unfolding ConvertToSdkNodePools_Inr_iff using pre each by auto
  moreover have "length ?res = length nodePools" by simp
  ultimately show "\<exists>res. ConvertToSdkNodePools w nodePools machinePools regional = Inr res
          \<and> length res = length nodePools
          \<and> (\<forall>i<length nodePools. ?conv i = Inr (res ! i))"
    using each by blast
qed

theorem C10_node_pool_conversion_witness:
  "length [ex_nodePool] \<le> length [ex_machinePool]
   \<and> (\<exists>res. ConvertToSdkNodePools ex_collaborators [ex_nodePool] [ex_machinePool] True = Inr res
        \<and> length res = 1
        \<and> ConvertToSdkNodePool ex_collaborators ex_nodePool ex_machinePool True = Inr (res ! 0))
   \<and> Replicas ex_machinePool \<noteq> None"
  using C10_node_pool_conversion [of ex_collaborators "[ex_nodePool]" "[ex_machinePool]" True]
  by (simp add: ex_defs)

end
